theory Spec2Isabelle
  imports Main
begin

section \<open>Strings and the regular expressions of the command interpreter\<close>

text \<open>
  A message body is a \<^typ>\<open>string\<close>: the list of its bytes in UTF-8. The white space of
  JavaScript (what \<^verbatim>\<open>\s\<close> matches and \<^verbatim>\<open>trim\<close> strips: the white space characters and the
  line terminators) is the list \<open>WHITE_SPACE\<close> of the encodings of its 25 characters:
  U+0009 to U+000D, U+0020, U+00A0, U+1680, U+2000 to U+200A, U+2028, U+2029, U+202F, U+205F,
  U+3000 and U+FEFF. No encoding is the start or the end of another one, and in a text that
  is well-formed UTF-8 one of them can only stand where a character starts, so stripping and
  matching them byte by byte is stripping and matching the characters. The letters, the
  digits and the word characters of the regular expressions (which have no flag \<^verbatim>\<open>u\<close>) are
  ASCII. \<open>toLowerCase\<close> maps \<^verbatim>\<open>A-Z\<close> to \<^verbatim>\<open>a-z\<close> and leaves every other byte as it is:
  the case mappings outside ASCII are not modelled, the code only compares a lowered text
  with ASCII strings.
\<close>

definition startsWith :: "string \<Rightarrow> string \<Rightarrow> bool" where
  "startsWith s p = (take (length p) s = p)"

definition WHITE_SPACE :: "string list" where
  "WHITE_SPACE =
     [[CHR 0x09], [CHR 0x0A], [CHR 0x0B], [CHR 0x0C], [CHR 0x0D], [CHR 0x20],
      [CHR 0xC2, CHR 0xA0],
      [CHR 0xE1, CHR 0x9A, CHR 0x80],
      [CHR 0xE2, CHR 0x80, CHR 0x80], [CHR 0xE2, CHR 0x80, CHR 0x81],
      [CHR 0xE2, CHR 0x80, CHR 0x82], [CHR 0xE2, CHR 0x80, CHR 0x83],
      [CHR 0xE2, CHR 0x80, CHR 0x84], [CHR 0xE2, CHR 0x80, CHR 0x85],
      [CHR 0xE2, CHR 0x80, CHR 0x86], [CHR 0xE2, CHR 0x80, CHR 0x87],
      [CHR 0xE2, CHR 0x80, CHR 0x88], [CHR 0xE2, CHR 0x80, CHR 0x89],
      [CHR 0xE2, CHR 0x80, CHR 0x8A],
      [CHR 0xE2, CHR 0x80, CHR 0xA8], [CHR 0xE2, CHR 0x80, CHR 0xA9],
      [CHR 0xE2, CHR 0x80, CHR 0xAF],
      [CHR 0xE2, CHR 0x81, CHR 0x9F],
      [CHR 0xE3, CHR 0x80, CHR 0x80],
      [CHR 0xEF, CHR 0xBB, CHR 0xBF]]"

text \<open>
  \<open>strip_one ws s\<close> takes one of the strings \<open>ws\<close> off the start of \<open>s\<close>, when
  \<open>s\<close> starts with one; \<open>strip_all ws s\<close> takes them off as long as there is one.
\<close>

definition strip_one :: "string list \<Rightarrow> string \<Rightarrow> string option" where
  "strip_one ws s =
     (case find (\<lambda>w. w \<noteq> [] \<and> startsWith s w) ws of
        None \<Rightarrow> None
      | Some w \<Rightarrow> Some (drop (length w) s))"

function strip_all :: "string list \<Rightarrow> string \<Rightarrow> string" where
  "strip_all ws s = (case strip_one ws s of None \<Rightarrow> s | Some r \<Rightarrow> strip_all ws r)"
  by pat_completeness auto
termination
proof (relation "measure (\<lambda>(ws, s). length s)")
  fix ws s r
  assume "strip_one ws s = Some r"
  then obtain w where w: "w \<noteq> []" "startsWith s w" "r = drop (length w) s"
    by (auto simp add: strip_one_def find_Some_iff split: option.splits)
  from w(2) have "length w \<le> length s"
    by (metis startsWith_def length_take min.cobounded1)
  with w(1,3) show "((ws, r), (ws, s)) \<in> measure (\<lambda>(ws, s). length s)" by (cases w) auto
qed simp

definition after_space :: "string \<Rightarrow> string option" where
  \<comment> \<open>the text after the white space character that starts it, if one does\<close>
  "after_space s = strip_one WHITE_SPACE s"

definition is_letter :: "char \<Rightarrow> bool" where
  \<comment> \<open>the class \<^verbatim>\<open>[a-zA-Z]\<close>\<close>
  "is_letter c = (let n = (of_char c :: nat) in (65 \<le> n \<and> n \<le> 90) \<or> (97 \<le> n \<and> n \<le> 122))"

definition is_word_char :: "char \<Rightarrow> bool" where
  \<comment> \<open>\<^verbatim>\<open>\w\<close>, the characters on either side of which \<^verbatim>\<open>\b\<close> looks: \<^verbatim>\<open>[A-Za-z0-9_]\<close>\<close>
  "is_word_char c =
     (let n = (of_char c :: nat) in is_letter c \<or> (48 \<le> n \<and> n \<le> 57) \<or> c = CHR ''_'')"

definition lower_char :: "char \<Rightarrow> char" where
  "lower_char c =
     (let n = (of_char c :: nat) in if 65 \<le> n \<and> n \<le> 90 then char_of (n + 32) else c)"

definition upper_char :: "char \<Rightarrow> char" where
  \<comment> \<open>the canonical form under which the flag \<^verbatim>\<open>/i\<close> compares two characters\<close>
  "upper_char c =
     (let n = (of_char c :: nat) in if 97 \<le> n \<and> n \<le> 122 then char_of (n - 32) else c)"

definition toLowerCase :: "string \<Rightarrow> string" where
  "toLowerCase s = map lower_char s"

definition trimStart :: "string \<Rightarrow> string" where
  "trimStart s = strip_all WHITE_SPACE s"

definition trimEnd :: "string \<Rightarrow> string" where
  "trimEnd s = rev (strip_all (map rev WHITE_SPACE) (rev s))"

definition trim :: "string \<Rightarrow> string" where
  "trim s = trimEnd (trimStart s)"

text \<open>
  \<open>ci_strip p prev s\<close> matches the literal \<open>p\<close> of a regular expression with the flag
  \<^verbatim>\<open>/i\<close> at the start of \<open>s\<close>. It returns the last character read (\<open>prev\<close> when
  \<open>p\<close> is empty) and the rest of \<open>s\<close>, or \<open>None\<close> when \<open>s\<close> does not start with
  \<open>p\<close> in any casing.
\<close>

fun ci_strip :: "string \<Rightarrow> char option \<Rightarrow> string \<Rightarrow> (char option \<times> string) option" where
  "ci_strip [] prev s = Some (prev, s)"
| "ci_strip (p # ps) prev [] = None"
| "ci_strip (p # ps) prev (c # cs) =
     (if upper_char p = upper_char c then ci_strip ps (Some c) cs else None)"

definition word_boundary :: "char option \<Rightarrow> string \<Rightarrow> bool" where
  \<comment> \<open>\<^verbatim>\<open>\b\<close> between the character before the position (if any) and the rest of the text\<close>
  "word_boundary prev r =
     ((case prev of None \<Rightarrow> False | Some c \<Rightarrow> is_word_char c) \<noteq>
      (case r of [] \<Rightarrow> False | c # _ \<Rightarrow> is_word_char c))"

definition lookahead_end :: "string \<Rightarrow> bool" where
  \<comment> \<open>\<^verbatim>\<open>(?=$|\s|:)\<close>\<close>
  "lookahead_end r = (case r of [] \<Rightarrow> True | c # _ \<Rightarrow> after_space r \<noteq> None \<or> c = CHR '':'')"

definition token_here :: "string list \<Rightarrow> string \<Rightarrow> bool" where
  \<comment> \<open>\<^verbatim>\<open>\/(?:tok1|tok2|...)(?=$|\s|:)\b\<close> at the start of the text\<close>
  "token_here toks s =
     list_ex (\<lambda>tok. case ci_strip (CHR ''/'' # tok) None s of
                       None \<Rightarrow> False
                     | Some (prev, r) \<Rightarrow> lookahead_end r \<and> word_boundary prev r) toks"

text \<open>
  \<open>re_test toks s\<close> is \<^verbatim>\<open>/(?:^|\s)\/(?:tok1|tok2|...)(?=$|\s|:)\b/i.test(s)\<close>: the token
  stands at the start of the text (\<^verbatim>\<open>^\<close>), or somewhere after a white space character
  (\<open>re_scan\<close> tries every place).
\<close>

definition token_after_space :: "string list \<Rightarrow> string \<Rightarrow> bool" where
  "token_after_space toks s =
     (case after_space s of None \<Rightarrow> False | Some r \<Rightarrow> token_here toks r)"

fun re_scan :: "string list \<Rightarrow> string \<Rightarrow> bool" where
  "re_scan toks [] = False"
| "re_scan toks (c # cs) = (token_after_space toks (c # cs) \<or> re_scan toks cs)"

definition re_test :: "string list \<Rightarrow> string \<Rightarrow> bool" where
  "re_test toks s = (token_here toks s \<or> re_scan toks s)"

subsection \<open>Detection of a control command (\<^verbatim>\<open>hasControlCommand\<close>)\<close>

definition CONTROL_COMMAND_RE :: "string list" where
  "CONTROL_COMMAND_RE =
     [''status'', ''help'', ''thinking'', ''think'', ''t'', ''verbose'', ''v'', ''elevated'',
      ''elev'', ''model'', ''queue'', ''activation'', ''send'', ''restart'', ''reset'', ''new'',
      ''compact'']"

definition CONTROL_COMMAND_EXACT :: "string list" where
  "CONTROL_COMMAND_EXACT =
     [''/help'', ''/status'', ''/restart'', ''/activation'', ''/send'', ''/reset'', ''/new'',
      ''/compact'']"

definition hasControlCommand :: "string option \<Rightarrow> bool" where
  "hasControlCommand text =
     (case text of
        None \<Rightarrow> False
      | Some t \<Rightarrow>
          if t = [] then False
          else let trimmed = trim t in
            if trimmed = [] then False
            else let lowered = toLowerCase trimmed in
              if lowered \<in> set CONTROL_COMMAND_EXACT then True
              else re_test CONTROL_COMMAND_RE t)"

subsection \<open>Group activation (\<^verbatim>\<open>group-activation.ts\<close>)\<close>

datatype GroupActivationMode = Mention | Always

text \<open>The result of a command parser: \<^verbatim>\<open>{ hasCommand: boolean; mode?: M }\<close>.\<close>

record 'm ParsedCommand =
  hasCommand :: bool
  mode :: "'m option"

definition normalizeGroupActivation :: "string option \<Rightarrow> GroupActivationMode option" where
  "normalizeGroupActivation raw =
     (case raw of
        None \<Rightarrow> None
      | Some r \<Rightarrow>
          let v = toLowerCase (trim r) in
          if v = ''mention'' then Some Mention
          else if v = ''always'' then Some Always
          else None)"

definition activation_match :: "string \<Rightarrow> string option option" where
  \<comment> \<open>\<^verbatim>\<open>trimmed.match(/^\/activation\b(?:\s+([a-zA-Z]+))?/i)\<close>: \<open>None\<close> when there is no
      match, otherwise the capture group (\<open>None\<close> when the group took no part)\<close>
  "activation_match trimmed =
     (case ci_strip ''/activation'' None trimmed of
        None \<Rightarrow> None
      | Some (prev, r) \<Rightarrow>
          if \<not> word_boundary prev r then None
          else let r2 = trimStart r; w = takeWhile is_letter r2 in
            if r2 \<noteq> r \<and> w \<noteq> [] then Some (Some w) else Some None)"

definition parseActivationCommand :: "string option \<Rightarrow> GroupActivationMode ParsedCommand" where
  "parseActivationCommand raw =
     (case raw of
        None \<Rightarrow> \<lparr>hasCommand = False, mode = None\<rparr>
      | Some r \<Rightarrow>
          if r = [] then \<lparr>hasCommand = False, mode = None\<rparr>
          else let trimmed = trim r in
            if trimmed = [] then \<lparr>hasCommand = False, mode = None\<rparr>
            else (case activation_match trimmed of
                    None \<Rightarrow> \<lparr>hasCommand = False, mode = None\<rparr>
                  | Some g \<Rightarrow> \<lparr>hasCommand = True, mode = normalizeGroupActivation g\<rparr>))"

section \<open>Sessions, the command context and the collaborators\<close>

datatype SendPolicyMode = Allow | Deny | Inherit

text \<open>
  Modelled from the spec: the declaration of \<^verbatim>\<open>SessionEntry\<close> (\<^verbatim>\<open>config/sessions.js\<close>) is
  not among the sources. The record has the fields of the specification's data model that
  \<^verbatim>\<open>handleCommands\<close> reads or writes; an optional field is an \<open>option\<close>, and a field that
  \<^verbatim>\<open>delete\<close> removed is \<open>None\<close>.
\<close>

record SessionEntry =
  sessionId :: "string option"
  groupActivation :: "GroupActivationMode option"
  groupActivationNeedsSystemIntro :: "bool option"
  sendPolicy :: "SendPolicyMode option"
  abortedLastRun :: "bool option"
  compactionCount :: "nat option"
  inputTokens :: "int option"
  outputTokens :: "int option"
  totalTokens :: "int option"
  updatedAt :: nat
  chatType :: "string option"
  entrySurface :: "string option"
  skillsSnapshot :: "string option"

type_synonym SessionStore = "string \<rightharpoonup> SessionEntry"

record CommandContext =
  surface :: string
  isWhatsAppSurface :: bool
  ownerList :: "string list"
  isAuthorizedSender :: bool
  senderE164 :: "string option"
  abortKey :: "string option"
  rawBodyNormalized :: string
  commandBodyNormalized :: string
  senderFrom :: "string option"
  senderTo :: "string option"

text \<open>The argument of \<^verbatim>\<open>compactEmbeddedPiSession\<close> and its result.\<close>

record CompactParams =
  cp_sessionId :: string
  cp_sessionKey :: "string option"
  cp_surface :: string
  cp_sessionFile :: string
  cp_workspaceDir :: string
  cp_skillsSnapshot :: "string option"
  cp_provider :: string
  cp_model :: string
  cp_thinkLevel :: "string option"
  cp_bashElevatedEnabled :: bool
  cp_bashElevatedAllowed :: bool
  cp_bashElevatedDefaultLevel :: string
  cp_customInstructions :: "string option"
  cp_ownerNumbers :: "string list option"

record CompactResult =
  ok :: bool
  compacted :: bool
  reason :: "string option"
  tokensBefore :: "int option"

text \<open>The argument of \<^verbatim>\<open>buildStatusMessage\<close>.\<close>

record StatusArgs =
  sa_primaryModel :: string
  sa_contextTokens :: int
  sa_workspaceDir :: string
  sa_sessionEntry :: "SessionEntry option"
  sa_sessionKey :: "string option"
  sa_sessionScope :: "string option"
  sa_storePath :: "string option"
  sa_groupActivation :: "GroupActivationMode option"
  sa_resolvedThink :: "string option"
  sa_resolvedVerbose :: string
  sa_resolvedElevated :: "string option"
  sa_modelAuth :: "string option"
  sa_webLinked :: bool
  sa_webAuthAgeMs :: "nat option"
  sa_heartbeatSeconds :: nat

record EnvApiKey =
  apiKey :: "string option"
  source :: string

text \<open>
  What a call of \<^verbatim>\<open>handleCommands\<close> does outside its own variables, in the order of the
  calls: the trace of a run.
\<close>

datatype Effect =
    LogVerbose string
  | SaveSessionStore string SessionStore
  | TriggerClawdbotRestart
  | IsEmbeddedPiRunActive string
  | AbortEmbeddedPiRun string
  | WaitForEmbeddedPiRunEnd string nat
  | CompactEmbeddedPiSession CompactParams
  | EnqueueSystemEvent string
  | SetAbortMemory string bool

text \<open>
  The state a call works on: the two objects it mutates in place (\<^verbatim>\<open>sessionEntry\<close> and
  \<^verbatim>\<open>sessionStore\<close>, absent when the caller passes none), the session stores written to
  stable storage, by path, the abort memory, and the trace.
\<close>

record World =
  sessionEntry :: "SessionEntry option"
  sessionStore :: "SessionStore option"
  disk :: "string \<rightharpoonup> SessionStore"
  abortMemory :: "string \<rightharpoonup> bool"
  trace :: "Effect list"

text \<open>
  The collaborators of \<^verbatim>\<open>handleCommands\<close> whose code is in other modules, as parameters,
  each with the message context \<^verbatim>\<open>ctx\<close> and the configuration \<^verbatim>\<open>cfg\<close> of the call built
  in; \<open>now\<close> is the reading of \<^verbatim>\<open>Date.now()\<close>, and \<open>authProfileTypes\<close> gives, for a
  provider, the \<^verbatim>\<open>type\<close> of each profile that \<^verbatim>\<open>listProfilesForProvider\<close> lists in the
  store of \<^verbatim>\<open>ensureAuthProfileStore\<close>. A theorem that holds for every \<open>Env\<close> holds
  whatever the collaborators answer.
\<close>

record Env =
  now :: nat
  parseSendPolicyCommand :: "string \<Rightarrow> SendPolicyMode ParsedCommand"
  isAbortTrigger :: "string \<Rightarrow> bool"
  normalizeE164 :: "string \<Rightarrow> string"
  stripStructuralPrefixes :: "string \<Rightarrow> string"
  stripMentions :: "string \<Rightarrow> string"
  triggerClawdbotRestart :: string
  buildHelpMessage :: string
  buildStatusMessage :: "StatusArgs \<Rightarrow> string"
  webAuthExists :: bool
  getWebAuthAgeMs :: "nat option"
  resolveHeartbeatSeconds :: nat
  resolveDefaultThinkingLevel :: "string option"
  authProfileTypes :: "string \<Rightarrow> string option list"
  resolveEnvApiKey :: "string \<Rightarrow> EnvApiKey option"
  getCustomProviderApiKey :: "string \<Rightarrow> string option"
  isEmbeddedPiRunActive :: "string \<Rightarrow> bool"
  waitForEmbeddedPiRunEnd :: "string \<Rightarrow> nat \<Rightarrow> bool"
  compactEmbeddedPiSession :: "CompactParams \<Rightarrow> CompactResult"
  resolveSessionTranscriptPath :: "string \<Rightarrow> string"
  formatContextUsageShort :: "int option \<Rightarrow> int option \<Rightarrow> string"
  formatTokenCount :: "int \<Rightarrow> string"
  resolveSendPolicy ::
    "SessionEntry option \<Rightarrow> string option \<Rightarrow> string \<Rightarrow> string option \<Rightarrow> SendPolicyMode"

text \<open>The parameters of \<^verbatim>\<open>handleCommands\<close> that are plain values.\<close>

record Params =
  command :: CommandContext
  hasStatusDirective :: bool
  ctxBody :: "string option"
  sessionKey :: "string option"
  storePath :: "string option"
  sessionScope :: "string option"
  workspaceDir :: string
  defaultGroupActivation :: GroupActivationMode
  resolvedThinkLevel :: "string option"
  resolvedVerboseLevel :: string
  resolvedElevatedLevel :: "string option"
  provider :: string
  model :: string
  contextTokens :: int
  isGroup :: bool

record DispatchResult =
  reply :: "string option"
  shouldContinue :: bool

subsection \<open>JavaScript's truthiness, and the texts\<close>

definition truthy :: "string option \<Rightarrow> bool" where
  \<comment> \<open>an optional string in a condition: \<^verbatim>\<open>undefined\<close> and \<^verbatim>\<open>""\<close> are false\<close>
  "truthy s = (case s of None \<Rightarrow> False | Some t \<Rightarrow> t \<noteq> [])"

definition or_default :: "string option \<Rightarrow> string \<Rightarrow> string" where
  \<comment> \<open>\<^verbatim>\<open>s || d\<close>\<close>
  "or_default s d = (case s of None \<Rightarrow> d | Some t \<Rightarrow> if t = [] then d else t)"

definition gear :: string where
  \<comment> \<open>the gear sign U+2699 U+FE0F that starts every reply, in UTF-8\<close>
  "gear = [CHR 0xE2, CHR 0x9A, CHR 0x99, CHR 0xEF, CHR 0xB8, CHR 0x8F]"

definition bullet :: string where
  \<comment> \<open>U+2022, in UTF-8\<close>
  "bullet = [CHR 0xE2, CHR 0x80, CHR 0xA2]"

definition activation_text :: "GroupActivationMode \<Rightarrow> string" where
  "activation_text m = (case m of Mention \<Rightarrow> ''mention'' | Always \<Rightarrow> ''always'')"

definition silent :: DispatchResult where
  \<comment> \<open>\<^verbatim>\<open>{ shouldContinue: false }\<close>\<close>
  "silent = \<lparr>reply = None, shouldContinue = False\<rparr>"

definition replyWith :: "string \<Rightarrow> DispatchResult" where
  \<comment> \<open>\<^verbatim>\<open>{ shouldContinue: false, reply: { text } }\<close>\<close>
  "replyWith t = \<lparr>reply = Some t, shouldContinue = False\<rparr>"

subsection \<open>Effects\<close>

definition emit :: "Effect \<Rightarrow> World \<Rightarrow> World" where
  "emit ev w = w\<lparr>trace := trace w @ [ev]\<rparr>"

definition logVerbose :: "string \<Rightarrow> World \<Rightarrow> World" where
  "logVerbose msg w = emit (LogVerbose msg) w"

definition saveSessionStore :: "string \<Rightarrow> SessionStore \<Rightarrow> World \<Rightarrow> World" where
  "saveSessionStore path st w = emit (SaveSessionStore path st) (w\<lparr>disk := (disk w)(path \<mapsto> st)\<rparr>)"

definition setAbortMemory :: "string \<Rightarrow> bool \<Rightarrow> World \<Rightarrow> World" where
  "setAbortMemory k v w = emit (SetAbortMemory k v) (w\<lparr>abortMemory := (abortMemory w)(k \<mapsto> v)\<rparr>)"

text \<open>
  The end of each mutation of \<^verbatim>\<open>handleCommands\<close>, which the source writes out three times:
  \<^verbatim>\<open>sessionEntry.updatedAt = Date.now(); sessionStore[sessionKey] = sessionEntry;
  if (storePath) await saveSessionStore(storePath, sessionStore)\<close>. Here \<open>e\<close> is the entry
  with the fields of the command already set.
\<close>

definition touchAndStore ::
  "Env \<Rightarrow> SessionEntry \<Rightarrow> SessionStore \<Rightarrow> string \<Rightarrow> string option \<Rightarrow> World \<Rightarrow> World" where
  "touchAndStore env e st k path w =
     (let e' = e\<lparr>updatedAt := now env\<rparr>;
          st' = st(k \<mapsto> e');
          w' = w\<lparr>sessionEntry := Some e', sessionStore := Some st'\<rparr>
      in case path of
           None \<Rightarrow> w'
         | Some sp \<Rightarrow> if sp = [] then w' else saveSessionStore sp st' w')"

text \<open>
  \<open>mutateEntry env p f w\<close> is the guarded mutation
  \<^verbatim>\<open>if (sessionEntry && sessionStore && sessionKey) { ... }\<close> whose body sets fields of the
  entry (the function \<open>f\<close>) and ends as \<open>touchAndStore\<close>. It returns \<open>None\<close> when the
  guard fails.
\<close>

definition mutateEntry ::
  "Env \<Rightarrow> Params \<Rightarrow> (SessionEntry \<Rightarrow> SessionEntry) \<Rightarrow> World \<Rightarrow> World option" where
  "mutateEntry env p f w =
     (case sessionEntry w of
        None \<Rightarrow> None
      | Some e \<Rightarrow>
         (case sessionStore w of
            None \<Rightarrow> None
          | Some st \<Rightarrow>
             (case sessionKey p of
                None \<Rightarrow> None
              | Some k \<Rightarrow>
                  if k = [] then None
                  else Some (touchAndStore env (f e) st k (storePath p) w))))"

section \<open>The dispatcher (\<^verbatim>\<open>handleCommands\<close>)\<close>

text \<open>
  Each command of \<^verbatim>\<open>handleCommands\<close> is given as its trigger (a predicate on the
  parameters) and its handler (the body of the \<^verbatim>\<open>if\<close>); \<open>handleCommands\<close> is the chain
  of the source, in its order.
\<close>

definition resetRequested :: "Params \<Rightarrow> bool" where
  "resetRequested p =
     (commandBodyNormalized (command p) = ''/reset'' \<or> commandBodyNormalized (command p) = ''/new'')"

definition activationSenderE164 :: "Env \<Rightarrow> CommandContext \<Rightarrow> string" where
  \<comment> \<open>\<^verbatim>\<open>command.senderE164 ? normalizeE164(command.senderE164) : ""\<close>\<close>
  "activationSenderE164 env cmd =
     (case senderE164 cmd of
        None \<Rightarrow> []
      | Some s \<Rightarrow> if s = [] then [] else normalizeE164 env s)"

definition isActivationOwner :: "Env \<Rightarrow> CommandContext \<Rightarrow> bool" where
  "isActivationOwner env cmd =
     (let activationOwnerList = ownerList cmd in
      if \<not> isWhatsAppSurface cmd \<or> length activationOwnerList = 0
      then isAuthorizedSender cmd
      else activationSenderE164 env cmd \<noteq> [] \<and>
           activationSenderE164 env cmd \<in> set activationOwnerList)"

definition handleActivation ::
  "Env \<Rightarrow> Params \<Rightarrow> GroupActivationMode ParsedCommand \<Rightarrow> World \<Rightarrow> DispatchResult \<times> World" where
  "handleActivation env p activationCommand w =
     (let cmd = command p in
      if \<not> isGroup p
      then (replyWith (gear @ '' Group activation only applies to group chats.''), w)
      else if \<not> isAuthorizedSender cmd \<or> (isWhatsAppSurface cmd \<and> \<not> isActivationOwner env cmd)
      then (silent,
            logVerbose (''Ignoring /activation from unauthorized sender in group: '' @
                        or_default (senderE164 cmd) ''<unknown>'') w)
      else (case mode activationCommand of
              None \<Rightarrow> (replyWith (gear @ '' Usage: /activation mention|always''), w)
            | Some m \<Rightarrow>
                (replyWith (gear @ '' Group activation set to '' @ activation_text m @ ''.''),
                 case mutateEntry env p
                        (\<lambda>e. e\<lparr>groupActivation := Some m,
                                groupActivationNeedsSystemIntro := Some True\<rparr>) w of
                   None \<Rightarrow> w
                 | Some w' \<Rightarrow> w')))"

definition sendPolicyLabel :: "SendPolicyMode \<Rightarrow> string" where
  "sendPolicyLabel m = (if m = Inherit then ''inherit'' else if m = Allow then ''on'' else ''off'')"

definition handleSendPolicy ::
  "Env \<Rightarrow> Params \<Rightarrow> SendPolicyMode ParsedCommand \<Rightarrow> World \<Rightarrow> DispatchResult \<times> World" where
  "handleSendPolicy env p sendPolicyCommand w =
     (let cmd = command p in
      if \<not> isAuthorizedSender cmd
      then (silent,
            logVerbose (''Ignoring /send from unauthorized sender: '' @
                        or_default (senderE164 cmd) ''<unknown>'') w)
      else (case mode sendPolicyCommand of
              None \<Rightarrow> (replyWith (gear @ '' Usage: /send on|off|inherit''), w)
            | Some m \<Rightarrow>
                (replyWith (gear @ '' Send policy set to '' @ sendPolicyLabel m @ ''.''),
                 case mutateEntry env p
                        (\<lambda>e. if m = Inherit then e\<lparr>sendPolicy := None\<rparr>
                              else e\<lparr>sendPolicy := Some m\<rparr>) w of
                   None \<Rightarrow> w
                 | Some w' \<Rightarrow> w')))"

definition restartRequested :: "Params \<Rightarrow> bool" where
  "restartRequested p =
     (commandBodyNormalized (command p) = ''/restart'' \<or>
      startsWith (commandBodyNormalized (command p)) ''/restart '')"

definition handleRestart :: "Env \<Rightarrow> Params \<Rightarrow> World \<Rightarrow> DispatchResult \<times> World" where
  "handleRestart env p w =
     (let cmd = command p in
      if \<not> isAuthorizedSender cmd
      then (silent,
            logVerbose (''Ignoring /restart from unauthorized sender: '' @
                        or_default (senderE164 cmd) ''<unknown>'') w)
      else (replyWith (gear @ '' Restarting clawdbot via '' @ triggerClawdbotRestart env @
                       ''; give me a few seconds to come back online.''),
            emit TriggerClawdbotRestart w))"

definition helpRequested :: "Params \<Rightarrow> bool" where
  "helpRequested p =
     (commandBodyNormalized (command p) = ''/help'' \<or>
      re_test [''help''] (commandBodyNormalized (command p)))"

definition handleHelp :: "Env \<Rightarrow> Params \<Rightarrow> World \<Rightarrow> DispatchResult \<times> World" where
  "handleHelp env p w =
     (let cmd = command p in
      if \<not> isAuthorizedSender cmd
      then (silent,
            logVerbose (''Ignoring /help from unauthorized sender: '' @
                        or_default (senderE164 cmd) ''<unknown>'') w)
      else (replyWith (buildHelpMessage env), w))"

definition statusRequested :: "Params \<Rightarrow> bool" where
  "statusRequested p =
     (hasStatusDirective p \<or>
      commandBodyNormalized (command p) = ''/status'' \<or>
      startsWith (commandBodyNormalized (command p)) ''/status '')"

fun str_includes :: "string \<Rightarrow> string \<Rightarrow> bool" where
  "str_includes [] q = (q = [])"
| "str_includes (c # cs) q = (startsWith (c # cs) q \<or> str_includes cs q)"

definition resolveModelAuthLabel :: "Env \<Rightarrow> string \<Rightarrow> string option" where
  "resolveModelAuthLabel env prov =
     (let resolved = trim prov in
      if resolved = [] then None
      else let modes = authProfileTypes env resolved in
        if length modes > 0 \<and> Some ''oauth'' \<in> set modes \<and> Some ''api_key'' \<in> set modes
        then Some ''mixed''
        else if length modes > 0 \<and> Some ''oauth'' \<in> set modes then Some ''oauth''
        else if length modes > 0 \<and> Some ''api_key'' \<in> set modes then Some ''api-key''
        else (case resolveEnvApiKey env resolved of
                Some k \<Rightarrow>
                  if truthy (apiKey k)
                  then (if str_includes (source k) ''OAUTH_TOKEN'' then Some ''oauth''
                        else Some ''api-key'')
                  else if truthy (getCustomProviderApiKey env resolved) then Some ''api-key''
                  else Some ''unknown''
              | None \<Rightarrow>
                  if truthy (getCustomProviderApiKey env resolved) then Some ''api-key''
                  else Some ''unknown''))"

definition handleStatus :: "Env \<Rightarrow> Params \<Rightarrow> World \<Rightarrow> DispatchResult \<times> World" where
  "handleStatus env p w =
     (let cmd = command p in
      if \<not> isAuthorizedSender cmd
      then (silent,
            logVerbose (''Ignoring /status from unauthorized sender: '' @
                        or_default (senderE164 cmd) ''<unknown>'') w)
      else let groupAct =
                 (if isGroup p
                  then (case normalizeGroupActivation
                               (case sessionEntry w of
                                  None \<Rightarrow> None
                                | Some e \<Rightarrow> map_option activation_text (groupActivation e)) of
                          Some m \<Rightarrow> Some m
                        | None \<Rightarrow> Some (defaultGroupActivation p))
                  else None);
               statusText = buildStatusMessage env
                 \<lparr>sa_primaryModel = model p,
                  sa_contextTokens = contextTokens p,
                  sa_workspaceDir = workspaceDir p,
                  sa_sessionEntry = sessionEntry w,
                  sa_sessionKey = sessionKey p,
                  sa_sessionScope = sessionScope p,
                  sa_storePath = storePath p,
                  sa_groupActivation = groupAct,
                  sa_resolvedThink =
                    (case resolvedThinkLevel p of
                       Some t \<Rightarrow> Some t
                     | None \<Rightarrow> resolveDefaultThinkingLevel env),
                  sa_resolvedVerbose = resolvedVerboseLevel p,
                  sa_resolvedElevated = resolvedElevatedLevel p,
                  sa_modelAuth = resolveModelAuthLabel env (provider p),
                  sa_webLinked = webAuthExists env,
                  sa_webAuthAgeMs = getWebAuthAgeMs env,
                  sa_heartbeatSeconds = resolveHeartbeatSeconds env\<rparr>
           in (replyWith statusText, w))"

definition compactRequested :: "Params \<Rightarrow> bool" where
  "compactRequested p =
     (commandBodyNormalized (command p) = ''/compact'' \<or>
      startsWith (commandBodyNormalized (command p)) ''/compact '')"

definition extractCompactInstructions :: "Env \<Rightarrow> string option \<Rightarrow> bool \<Rightarrow> string option" where
  "extractCompactInstructions env rawBody isGrp =
     (let raw = stripStructuralPrefixes env (case rawBody of None \<Rightarrow> [] | Some b \<Rightarrow> b);
          stripped = (if isGrp then stripMentions env raw else raw);
          trimmed = trim stripped
      in if trimmed = [] then None
         else let lowered = toLowerCase trimmed in
           if \<not> startsWith lowered ''/compact'' then None
           else let rest0 = trimStart (drop (length ''/compact'') trimmed);
                    rest = (if startsWith rest0 '':'' then trimStart (drop 1 rest0) else rest0)
                in if rest \<noteq> [] then Some rest else None)"

text \<open>
  Modelled from the spec: \<^verbatim>\<open>incrementCompactionCount\<close> (\<^verbatim>\<open>session-updates.js\<close>) is not
  among the sources. The specification: increment \<^verbatim>\<open>compactionCount\<close>, bump
  \<^verbatim>\<open>updatedAt\<close>, persist.
\<close>

definition incrementCompactionCount :: "Env \<Rightarrow> Params \<Rightarrow> World \<Rightarrow> World" where
  "incrementCompactionCount env p w =
     (case mutateEntry env p
             (\<lambda>e. e\<lparr>compactionCount :=
                       Some (Suc (case compactionCount e of None \<Rightarrow> 0 | Some n \<Rightarrow> n))\<rparr>) w of
        None \<Rightarrow> w
      | Some w' \<Rightarrow> w')"

definition compactParams :: "Env \<Rightarrow> Params \<Rightarrow> SessionEntry \<Rightarrow> string \<Rightarrow> CompactParams" where
  \<comment> \<open>the argument of the call of \<^verbatim>\<open>compactEmbeddedPiSession\<close>\<close>
  "compactParams env p e sid =
     \<lparr>cp_sessionId = sid,
      cp_sessionKey = sessionKey p,
      cp_surface = surface (command p),
      cp_sessionFile = resolveSessionTranscriptPath env sid,
      cp_workspaceDir = workspaceDir p,
      cp_skillsSnapshot = skillsSnapshot e,
      cp_provider = provider p,
      cp_model = model p,
      cp_thinkLevel =
        (case resolvedThinkLevel p of Some t \<Rightarrow> Some t | None \<Rightarrow> resolveDefaultThinkingLevel env),
      cp_bashElevatedEnabled = False,
      cp_bashElevatedAllowed = False,
      cp_bashElevatedDefaultLevel = ''off'',
      cp_customInstructions = extractCompactInstructions env (ctxBody p) (isGroup p),
      cp_ownerNumbers =
        (if length (ownerList (command p)) > 0 then Some (ownerList (command p)) else None)\<rparr>"

definition runCompaction ::
  "Env \<Rightarrow> Params \<Rightarrow> SessionEntry \<Rightarrow> string \<Rightarrow> World \<Rightarrow> DispatchResult \<times> World" where
  \<comment> \<open>\<^verbatim>\<open>/compact\<close> from the call of \<^verbatim>\<open>compactEmbeddedPiSession\<close> on\<close>
  "runCompaction env p e sid w =
     (let params = compactParams env p e sid;
          w1 = emit (CompactEmbeddedPiSession params) w;
          result = compactEmbeddedPiSession env params;
          total = (case totalTokens e of
                     Some t \<Rightarrow> t
                   | None \<Rightarrow> (case inputTokens e of None \<Rightarrow> 0 | Some i \<Rightarrow> i) +
                             (case outputTokens e of None \<Rightarrow> 0 | Some k \<Rightarrow> k));
          contextSummary = formatContextUsageShort env
                             (if total > 0 then Some total else None) (Some (contextTokens p));
          compactLabel =
            (if ok result
             then (if compacted result
                   then (case tokensBefore result of
                           None \<Rightarrow> ''Compacted''
                         | Some n \<Rightarrow>
                             if n = 0 then ''Compacted''
                             else ''Compacted ('' @ formatTokenCount env n @ '' before)'')
                   else ''Compaction skipped'')
             else ''Compaction failed'');
          w2 = (if ok result \<and> compacted result then incrementCompactionCount env p w1 else w1);
          why = map_option trim (reason result);
          line = (if truthy why
                  then compactLabel @ '': '' @ or_default why [] @ '' '' @ bullet @ '' '' @
                       contextSummary
                  else compactLabel @ '' '' @ bullet @ '' '' @ contextSummary);
          w3 = emit (EnqueueSystemEvent line) w2
      in (replyWith (gear @ '' '' @ line), w3))"

definition handleCompact :: "Env \<Rightarrow> Params \<Rightarrow> World \<Rightarrow> DispatchResult \<times> World" where
  "handleCompact env p w =
     (let cmd = command p in
      if \<not> isAuthorizedSender cmd
      then (silent,
            logVerbose (''Ignoring /compact from unauthorized sender: '' @
                        or_default (senderE164 cmd) ''<unknown>'') w)
      else (case sessionEntry w of
              None \<Rightarrow> (replyWith (gear @ '' Compaction unavailable (missing session id).''), w)
            | Some e \<Rightarrow>
               (case sessionId e of
                  None \<Rightarrow> (replyWith (gear @ '' Compaction unavailable (missing session id).''), w)
                | Some sid \<Rightarrow>
                    if sid = []
                    then (replyWith (gear @ '' Compaction unavailable (missing session id).''), w)
                    else let w1 = emit (IsEmbeddedPiRunActive sid) w;
                             w2 = (if isEmbeddedPiRunActive env sid
                                   then emit (WaitForEmbeddedPiRunEnd sid 15000)
                                          (emit (AbortEmbeddedPiRun sid) w1)
                                   else w1)
                         in runCompaction env p e sid w2)))"

definition handleAbort :: "Env \<Rightarrow> Params \<Rightarrow> World \<Rightarrow> DispatchResult \<times> World" where
  "handleAbort env p w =
     (replyWith (gear @ '' Agent was aborted.''),
      case mutateEntry env p (\<lambda>e. e\<lparr>abortedLastRun := Some True\<rparr>) w of
        Some w' \<Rightarrow> w'
      | None \<Rightarrow>
         (case abortKey (command p) of
            None \<Rightarrow> w
          | Some k \<Rightarrow> if k = [] then w else setAbortMemory k True w))"

definition sendPolicyGate :: "Env \<Rightarrow> Params \<Rightarrow> World \<Rightarrow> DispatchResult \<times> World" where
  \<comment> \<open>the end of \<^verbatim>\<open>handleCommands\<close>, when no command matched\<close>
  "sendPolicyGate env p w =
     (if resolveSendPolicy env (sessionEntry w) (sessionKey p)
           (case sessionEntry w of
              None \<Rightarrow> surface (command p)
            | Some e \<Rightarrow> (case entrySurface e of None \<Rightarrow> surface (command p) | Some s \<Rightarrow> s))
           (case sessionEntry w of None \<Rightarrow> None | Some e \<Rightarrow> chatType e) = Deny
      then (silent,
            logVerbose (''Send blocked by policy for session '' @
                        (case sessionKey p of None \<Rightarrow> ''unknown'' | Some k \<Rightarrow> k)) w)
      else (\<lparr>reply = None, shouldContinue = True\<rparr>, w))"

definition handleCommands :: "Env \<Rightarrow> Params \<Rightarrow> World \<Rightarrow> DispatchResult \<times> World" where
  "handleCommands env p w =
     (let cmd = command p in
      if resetRequested p \<and> \<not> isAuthorizedSender cmd
      then (silent,
            logVerbose (''Ignoring /reset from unauthorized sender: '' @
                        or_default (senderE164 cmd) ''<unknown>'') w)
      else let activationCommand = parseActivationCommand (Some (commandBodyNormalized cmd));
               sendPolicyCommand = parseSendPolicyCommand env (commandBodyNormalized cmd)
           in if hasCommand activationCommand then handleActivation env p activationCommand w
              else if hasCommand sendPolicyCommand then handleSendPolicy env p sendPolicyCommand w
              else if restartRequested p then handleRestart env p w
              else if helpRequested p then handleHelp env p w
              else if statusRequested p then handleStatus env p w
              else if compactRequested p then handleCompact env p w
              else if isAbortTrigger env (rawBodyNormalized cmd) then handleAbort env p w
              else sendPolicyGate env p w)"

section \<open>The command of a message\<close>

text \<open>
  \<^verbatim>\<open>handleCommands\<close> has no classifier of its own: the command of a message is the first
  trigger of its chain that fires. \<open>classify\<close> names it, with the triggers of
  \<open>handleCommands\<close> in the order of \<open>handleCommands\<close>; the theorems below use it to say
  which command a message is.
\<close>

datatype Command =
  Reset | SetActivation | SetSendPolicy | Restart | Help | Status | Compact | Abort | NoCommand

definition classify :: "Env \<Rightarrow> Params \<Rightarrow> Command" where
  "classify env p =
     (let cmd = command p in
      if resetRequested p then Reset
      else if hasCommand (parseActivationCommand (Some (commandBodyNormalized cmd)))
      then SetActivation
      else if hasCommand (parseSendPolicyCommand env (commandBodyNormalized cmd))
      then SetSendPolicy
      else if restartRequested p then Restart
      else if helpRequested p then Help
      else if statusRequested p then Status
      else if compactRequested p then Compact
      else if isAbortTrigger env (rawBodyNormalized cmd) then Abort
      else NoCommand)"

definition entryGuard :: "Params \<Rightarrow> World \<Rightarrow> bool" where
  \<comment> \<open>the guard of every mutation: \<^verbatim>\<open>sessionEntry && sessionStore && sessionKey\<close>\<close>
  "entryGuard p w = (sessionEntry w \<noteq> None \<and> sessionStore w \<noteq> None \<and> truthy (sessionKey p))"

definition activationAllowed :: "Env \<Rightarrow> CommandContext \<Rightarrow> bool" where
  \<comment> \<open>who may change the activation of a group, as the specification words it: on a surface
      with owners (WhatsApp, with a non-empty owner list) an authorized sender whose
      normalized E.164 number is in the owner list, elsewhere an authorized sender\<close>
  "activationAllowed env cmd =
     (if isWhatsAppSurface cmd \<and> ownerList cmd \<noteq> []
      then isAuthorizedSender cmd \<and>
           (case senderE164 cmd of
              None \<Rightarrow> False
            | Some s \<Rightarrow> s \<noteq> [] \<and> normalizeE164 env s \<noteq> [] \<and>
                       normalizeE164 env s \<in> set (ownerList cmd))
      else isAuthorizedSender cmd)"

definition stored :: "World \<Rightarrow> SessionEntry option \<times> SessionStore option \<times> (string \<rightharpoonup> SessionStore) \<times> (string \<rightharpoonup> bool)" where
  \<comment> \<open>the state a later message can observe: everything but the trace\<close>
  "stored w = (sessionEntry w, sessionStore w, disk w, abortMemory w)"

subsection \<open>A sample environment and sample messages\<close>

text \<open>
  Concrete collaborators, on which the dispatcher can be evaluated: a parser of
  \<^verbatim>\<open>/send\<close> that knows four messages, \<^verbatim>\<open>stop\<close> as the abort trigger, a normalizer of
  numbers that keeps the digits after a \<^verbatim>\<open>+\<close>, no run active but that of session \<^verbatim>\<open>s1\<close>,
  whose end the wait does not see before its timeout.
\<close>

definition sampleParseSend :: "string \<Rightarrow> SendPolicyMode ParsedCommand" where
  "sampleParseSend s =
     (if s = ''/send on'' then \<lparr>hasCommand = True, mode = Some Allow\<rparr>
      else if s = ''/send off'' then \<lparr>hasCommand = True, mode = Some Deny\<rparr>
      else if s = ''/send inherit'' then \<lparr>hasCommand = True, mode = Some Inherit\<rparr>
      else if s = ''/send'' then \<lparr>hasCommand = True, mode = None\<rparr>
      else \<lparr>hasCommand = False, mode = None\<rparr>)"

definition sampleEnv :: Env where
  "sampleEnv =
     \<lparr>now = 1000,
      parseSendPolicyCommand = sampleParseSend,
      isAbortTrigger = (\<lambda>s. s = ''stop''),
      normalizeE164 = (\<lambda>s. CHR ''+'' # filter (\<lambda>c. c \<in> set ''0123456789'') s),
      stripStructuralPrefixes = (\<lambda>s. s),
      stripMentions = (\<lambda>s. s),
      triggerClawdbotRestart = ''launchctl'',
      buildHelpMessage = ''commands'',
      buildStatusMessage = (\<lambda>a. ''status''),
      webAuthExists = False,
      getWebAuthAgeMs = None,
      resolveHeartbeatSeconds = 60,
      resolveDefaultThinkingLevel = None,
      authProfileTypes = (\<lambda>s. []),
      resolveEnvApiKey = (\<lambda>s. None),
      getCustomProviderApiKey = (\<lambda>s. None),
      isEmbeddedPiRunActive = (\<lambda>s. s = ''s1''),
      waitForEmbeddedPiRunEnd = (\<lambda>s t. False),
      compactEmbeddedPiSession =
        (\<lambda>a. \<lparr>ok = True, compacted = False, reason = None, tokensBefore = None\<rparr>),
      resolveSessionTranscriptPath = (\<lambda>s. s @ ''.jsonl''),
      formatContextUsageShort = (\<lambda>a b. ''ctx''),
      formatTokenCount = (\<lambda>n. ''n''),
      resolveSendPolicy = (\<lambda>e k s c. Allow)\<rparr>"

definition sampleCommand :: "bool \<Rightarrow> string \<Rightarrow> CommandContext" where
  \<comment> \<open>a sender (authorized or not) with no identity on a surface without owners\<close>
  "sampleCommand auth body =
     \<lparr>surface = ''telegram'', isWhatsAppSurface = False, ownerList = [],
      isAuthorizedSender = auth, senderE164 = None, abortKey = None,
      rawBodyNormalized = body, commandBodyNormalized = body,
      senderFrom = None, senderTo = None\<rparr>"

definition sampleParams :: "CommandContext \<Rightarrow> bool \<Rightarrow> string option \<Rightarrow> Params" where
  \<comment> \<open>a message of session \<^verbatim>\<open>main\<close>, in a group or not, with or without a store path\<close>
  "sampleParams cmd grp path =
     \<lparr>command = cmd, hasStatusDirective = False, ctxBody = Some (rawBodyNormalized cmd),
      sessionKey = Some ''main'', storePath = path, sessionScope = None,
      workspaceDir = ''/w'', defaultGroupActivation = Mention, resolvedThinkLevel = None,
      resolvedVerboseLevel = ''off'', resolvedElevatedLevel = None, provider = ''anthropic'',
      model = ''m'', contextTokens = 200000, isGroup = grp\<rparr>"

definition sampleEntry :: "string option \<Rightarrow> SessionEntry" where
  "sampleEntry sid =
     \<lparr>sessionId = sid, groupActivation = None, groupActivationNeedsSystemIntro = None,
      sendPolicy = Some Deny, abortedLastRun = None, compactionCount = None,
      inputTokens = None, outputTokens = None, totalTokens = None, updatedAt = 5,
      chatType = None, entrySurface = None, skillsSnapshot = None\<rparr>"

definition sampleWorld :: "SessionEntry option \<Rightarrow> SessionStore option \<Rightarrow> World" where
  "sampleWorld e st =
     \<lparr>sessionEntry = e, sessionStore = st, disk = Map.empty, abortMemory = Map.empty,
      trace = []\<rparr>"

definition denied :: "World \<Rightarrow> DispatchResult \<times> World \<Rightarrow> bool" where
  \<comment> \<open>a silent denial: no reply, no continuation, nothing changed but one line of the log\<close>
  "denied w r = (fst r = silent \<and> stored (snd r) = stored w \<and>
                 (\<exists>msg. trace (snd r) = trace w @ [LogVerbose msg]))"

section \<open>Facts about the strings and the regular expressions\<close>

lemmas str_defs = is_letter_def is_word_char_def lower_char_def upper_char_def
  toLowerCase_def trimStart_def trimEnd_def trim_def startsWith_def word_boundary_def
  lookahead_end_def token_here_def token_after_space_def re_test_def after_space_def
  strip_one_def WHITE_SPACE_def char_of_eq_iff

lemmas parse_defs = parseActivationCommand_def activation_match_def normalizeGroupActivation_def

lemmas trigger_defs = resetRequested_def restartRequested_def helpRequested_def
  statusRequested_def compactRequested_def

lemmas sample_defs = sampleEnv_def sampleParseSend_def sampleCommand_def sampleParams_def
  sampleEntry_def sampleWorld_def

lemma upper_lower: "upper_char (lower_char c) = upper_char c"
  by (simp add: upper_char_def lower_char_def Let_def char_of_eq_iff take_bit_eq_mod)

lemma lower_letter_word: "is_letter (lower_char c) \<Longrightarrow> is_word_char c"
  by (auto simp add: is_letter_def is_word_char_def lower_char_def Let_def take_bit_eq_mod
      split: if_splits)

lemma colon_not_word: "\<not> is_word_char (CHR '':'')"
  by (simp add: is_word_char_def is_letter_def Let_def)

lemma strip_one_SomeD: "strip_one ws s = Some r \<Longrightarrow> \<exists>w \<in> set ws. w \<noteq> [] \<and> s = w @ r"
proof -
  assume "strip_one ws s = Some r"
  then obtain w where w: "find (\<lambda>w. w \<noteq> [] \<and> startsWith s w) ws = Some w"
      and r: "r = drop (length w) s"
    by (auto simp add: strip_one_def split: option.splits)
  from w have "w \<in> set ws" "w \<noteq> []" "take (length w) s = w"
    by (auto simp add: find_Some_iff startsWith_def)
  then show ?thesis using r by (metis append_take_drop_id)
qed

lemma after_space_WS: "w \<in> set WHITE_SPACE \<Longrightarrow> after_space (w @ r) = Some r"
  apply (simp add: WHITE_SPACE_def)
  apply (elim disjE)
  apply (simp_all add: after_space_def strip_one_def WHITE_SPACE_def startsWith_def)
  done

lemma white_space_hd: "w \<in> set WHITE_SPACE \<Longrightarrow> \<not> is_word_char (hd w) \<and> hd w \<noteq> CHR '':''"
  apply (simp add: WHITE_SPACE_def)
  apply (elim disjE)
  apply (simp_all add: is_word_char_def is_letter_def)
  done

lemma after_space_not_word:
  assumes "after_space (c # cs) \<noteq> None"
  shows "\<not> is_word_char c"
proof -
  from assms obtain r where "strip_one WHITE_SPACE (c # cs) = Some r"
    by (auto simp add: after_space_def)
  then obtain w where w: "w \<in> set WHITE_SPACE" "w \<noteq> []" "c # cs = w @ r"
    using strip_one_SomeD by blast
  from w(2,3) have "c = hd w" by (cases w) auto
  then show ?thesis using white_space_hd [OF w(1)] by simp
qed

lemma ci_strip_casing:
  "toLowerCase cased = tok \<Longrightarrow>
   ci_strip tok prev (cased @ post) = Some (if cased = [] then prev else Some (last cased), post)"
proof (induction tok arbitrary: cased prev)
  case Nil
  then show ?case by (simp add: toLowerCase_def)
next
  case (Cons p ps)
  then obtain c cs where cased: "cased = c # cs" and p: "p = lower_char c"
      and ps: "toLowerCase cs = ps"
    by (auto simp add: toLowerCase_def)
  have "upper_char p = upper_char c" using p by (simp add: upper_lower)
  then show ?case using Cons.IH [OF ps, of "Some c"] cased by simp
qed

lemma lookahead_boundary:
  "lookahead_end post \<Longrightarrow> is_word_char c \<Longrightarrow> word_boundary (Some c) post"
  using after_space_not_word
  by (auto simp add: lookahead_end_def word_boundary_def colon_not_word split: list.splits)

lemma token_here_casing:
  assumes tok: "tok \<in> set toks" and ne: "tok \<noteq> []" and letters: "\<forall>c \<in> set tok. is_letter c"
    and cased: "toLowerCase cased = tok" and post: "lookahead_end post"
  shows "token_here toks (CHR ''/'' # cased @ post)"
proof -
  have cne: "cased \<noteq> []" using ne cased by (auto simp add: toLowerCase_def)
  have "lower_char (last cased) = last tok"
    using cased cne by (auto simp add: toLowerCase_def last_map)
  moreover have "is_letter (last tok)" using letters ne by simp
  ultimately have w: "is_word_char (last cased)" by (simp add: lower_letter_word)
  have "ci_strip (CHR ''/'' # tok) None (CHR ''/'' # cased @ post) = Some (Some (last cased), post)"
    using ci_strip_casing [OF cased, of "Some (CHR ''/'')" post] cne by simp
  then show ?thesis
    using tok post w unfolding token_here_def list_ex_iff
    by (auto intro!: bexI [of _ tok] simp add: lookahead_boundary)
qed

lemma re_scan_append: "token_after_space toks x \<Longrightarrow> re_scan toks (q @ x)"
proof (induction q)
  case Nil
  then show ?case
    by (cases x) (simp_all add: token_after_space_def after_space_def strip_one_def
        WHITE_SPACE_def startsWith_def)
next
  case (Cons c cs)
  then show ?case by simp
qed

lemma re_test_pre:
  assumes tok: "token_here toks s"
    and pre: "pre = [] \<or> (\<exists>w \<in> set WHITE_SPACE. \<exists>q. pre = q @ w)"
  shows "re_test toks (pre @ s)"
proof (cases "pre = []")
  case True
  then show ?thesis using tok by (simp add: re_test_def)
next
  case False
  then obtain w q where w: "w \<in> set WHITE_SPACE" "pre = q @ w" using pre by blast
  have "token_after_space toks (w @ s)"
    using tok by (simp add: token_after_space_def after_space_WS [OF w(1)])
  then have "re_scan toks (q @ w @ s)" by (rule re_scan_append)
  then show ?thesis using w(2) by (simp add: re_test_def)
qed

lemma strip_all_keeps:
  "c \<in> set s \<Longrightarrow> \<forall>w \<in> set ws. c \<notin> set w \<Longrightarrow> c \<in> set (strip_all ws s)"
proof (induction ws s rule: strip_all.induct)
  case (1 ws s)
  show ?case
  proof (cases "strip_one ws s")
    case None
    then show ?thesis using "1.prems" by simp
  next
    case (Some r)
    then obtain w where "w \<in> set ws" "s = w @ r" using strip_one_SomeD by blast
    then have "c \<in> set r" using "1.prems" by auto
    then show ?thesis using "1.IH" [OF Some] "1.prems" Some by simp
  qed
qed

lemma trim_keeps:
  assumes "c \<in> set s" "\<forall>w \<in> set WHITE_SPACE. c \<notin> set w"
  shows "c \<in> set (trim s)"
proof -
  have a: "c \<in> set (trimStart s)"
    unfolding trimStart_def using assms by (rule strip_all_keeps)
  have "c \<in> set (strip_all (map rev WHITE_SPACE) (rev (trimStart s)))"
    using a assms(2) by (intro strip_all_keeps) auto
  then show ?thesis by (simp add: trim_def trimEnd_def)
qed

lemma slash_no_space: "\<forall>w \<in> set WHITE_SPACE. CHR ''/'' \<notin> set w"
  by (simp add: WHITE_SPACE_def)

lemma trim_Nil: "trim [] = []"
  by (simp add: trim_def trimEnd_def trimStart_def strip_one_def WHITE_SPACE_def startsWith_def)

lemma control_tokens_letters:
  "tok \<in> set CONTROL_COMMAND_RE \<Longrightarrow> tok \<noteq> [] \<and> (\<forall>c \<in> set tok. is_letter c)"
  by (auto simp add: CONTROL_COMMAND_RE_def is_letter_def)

lemma hasControlCommand_exact:
  assumes "toLowerCase (trim t) \<in> set CONTROL_COMMAND_EXACT"
  shows "hasControlCommand (Some t)"
proof -
  have "toLowerCase (trim t) \<noteq> []" using assms by (auto simp add: CONTROL_COMMAND_EXACT_def)
  then have "trim t \<noteq> []" by (auto simp add: toLowerCase_def)
  moreover from this have "t \<noteq> []" using trim_Nil by auto
  ultimately show ?thesis using assms by (simp add: hasControlCommand_def)
qed

lemma hasControlCommand_token:
  assumes tok: "toLowerCase cased \<in> set CONTROL_COMMAND_RE"
    and pre: "pre = [] \<or> (\<exists>w \<in> set WHITE_SPACE. \<exists>q. pre = q @ w)"
    and post: "post = [] \<or> (\<exists>w \<in> set WHITE_SPACE. \<exists>q. post = w @ q) \<or> hd post = CHR '':''"
  shows "hasControlCommand (Some (pre @ CHR ''/'' # cased @ post))"
proof -
  let ?t = "pre @ CHR ''/'' # cased @ post"
  have la: "lookahead_end post"
    using post after_space_WS by (cases post) (auto simp add: lookahead_end_def)
  have "token_here CONTROL_COMMAND_RE (CHR ''/'' # cased @ post)"
    using token_here_casing [OF tok _ _ refl la] control_tokens_letters [OF tok] by blast
  then have re: "re_test CONTROL_COMMAND_RE ?t"
    using pre by (rule re_test_pre)
  have "CHR ''/'' \<in> set (trim ?t)" using slash_no_space by (intro trim_keeps) auto
  then have "trim ?t \<noteq> []" by auto
  then show ?thesis using re by (simp add: hasControlCommand_def)
qed

section \<open>Facts about the dispatcher\<close>

lemma activation_not_reset:
  "hasCommand (parseActivationCommand (Some b)) \<Longrightarrow> b \<noteq> ''/reset'' \<and> b \<noteq> ''/new''"
proof -
  have "\<not> hasCommand (parseActivationCommand (Some ''/reset''))"
    by (simp add: parse_defs str_defs)
  moreover have "\<not> hasCommand (parseActivationCommand (Some ''/new''))"
    by (simp add: parse_defs str_defs)
  ultimately show "hasCommand (parseActivationCommand (Some b)) \<Longrightarrow> b \<noteq> ''/reset'' \<and> b \<noteq> ''/new''"
    by auto
qed

lemma hc_activation:
  "hasCommand (parseActivationCommand (Some (commandBodyNormalized (command p)))) \<Longrightarrow>
   handleCommands env p w =
     handleActivation env p (parseActivationCommand (Some (commandBodyNormalized (command p)))) w"
  using activation_not_reset [of "commandBodyNormalized (command p)"]
  by (simp add: handleCommands_def resetRequested_def Let_def)

lemma classify_activation:
  "classify env p = SetActivation \<Longrightarrow>
   hasCommand (parseActivationCommand (Some (commandBodyNormalized (command p))))"
  by (simp add: classify_def Let_def split: if_splits)

lemma hc_reset:
  "classify env p = Reset \<Longrightarrow> \<not> isAuthorizedSender (command p) \<Longrightarrow>
   handleCommands env p w =
     (silent, logVerbose (''Ignoring /reset from unauthorized sender: '' @
                          or_default (senderE164 (command p)) ''<unknown>'') w)"
  by (simp add: classify_def handleCommands_def Let_def split: if_splits)

lemma hc_send:
  "classify env p = SetSendPolicy \<Longrightarrow>
   handleCommands env p w =
     handleSendPolicy env p (parseSendPolicyCommand env (commandBodyNormalized (command p))) w"
  by (simp add: classify_def handleCommands_def Let_def split: if_splits)

lemma hc_restart: "classify env p = Restart \<Longrightarrow> handleCommands env p w = handleRestart env p w"
  by (simp add: classify_def handleCommands_def Let_def split: if_splits)

lemma hc_help: "classify env p = Help \<Longrightarrow> handleCommands env p w = handleHelp env p w"
  by (simp add: classify_def handleCommands_def Let_def split: if_splits)

lemma hc_status: "classify env p = Status \<Longrightarrow> handleCommands env p w = handleStatus env p w"
  by (simp add: classify_def handleCommands_def Let_def split: if_splits)

lemma hc_compact: "classify env p = Compact \<Longrightarrow> handleCommands env p w = handleCompact env p w"
  by (simp add: classify_def handleCommands_def Let_def split: if_splits)

lemma hc_abort: "classify env p = Abort \<Longrightarrow> handleCommands env p w = handleAbort env p w"
  by (simp add: classify_def handleCommands_def Let_def split: if_splits)

lemma stored_logVerbose: "stored (logVerbose msg w) = stored w"
  by (simp add: stored_def logVerbose_def emit_def)

lemma trace_logVerbose: "trace (logVerbose msg w) = trace w @ [LogVerbose msg]"
  by (simp add: logVerbose_def emit_def)

lemma deniedI: "denied w (silent, logVerbose msg w)"
  by (simp add: denied_def stored_logVerbose trace_logVerbose)

lemma trace_mutateEntry:
  "mutateEntry env p f w = Some w' \<Longrightarrow> \<exists>rest. trace w' = trace w @ rest"
  by (auto simp add: mutateEntry_def touchAndStore_def saveSessionStore_def emit_def Let_def
      split: option.splits if_splits)

lemma trace_incrementCompactionCount:
  "\<exists>rest. trace (incrementCompactionCount env p w) = trace w @ rest"
  using trace_mutateEntry by (fastforce simp add: incrementCompactionCount_def split: option.splits)

lemma trace_runCompaction:
  "\<exists>rest. trace (snd (runCompaction env p e sid w)) =
          trace w @ CompactEmbeddedPiSession (compactParams env p e sid) # rest"
proof -
  obtain rest where
    "trace (incrementCompactionCount env p (emit (CompactEmbeddedPiSession (compactParams env p e sid)) w)) =
     trace (emit (CompactEmbeddedPiSession (compactParams env p e sid)) w) @ rest"
    using trace_incrementCompactionCount by blast
  then show ?thesis
    by (simp add: runCompaction_def Let_def emit_def)
qed

lemma reply_runCompaction: "\<exists>t. fst (runCompaction env p e sid w) = \<lparr>reply = Some t, shouldContinue = False\<rparr>"
  by (simp add: runCompaction_def Let_def replyWith_def)

lemma classify_wait: "classify (env\<lparr>waitForEmbeddedPiRunEnd := wt\<rparr>) p = classify env p"
  by (simp add: classify_def Let_def)

lemma compactParams_wait:
  "compactParams (env\<lparr>waitForEmbeddedPiRunEnd := wt\<rparr>) p e sid = compactParams env p e sid"
  by (simp add: compactParams_def extractCompactInstructions_def Let_def
      cong del: if_weak_cong option.case_cong_weak)

lemma mutateEntry_wait:
  "mutateEntry (env\<lparr>waitForEmbeddedPiRunEnd := wt\<rparr>) p f w = mutateEntry env p f w"
  by (simp add: mutateEntry_def touchAndStore_def Let_def
      cong del: if_weak_cong option.case_cong_weak)

lemma incrementCompactionCount_wait:
  "incrementCompactionCount (env\<lparr>waitForEmbeddedPiRunEnd := wt\<rparr>) p w =
   incrementCompactionCount env p w"
  by (simp add: incrementCompactionCount_def mutateEntry_wait)

lemma runCompaction_wait:
  "runCompaction (env\<lparr>waitForEmbeddedPiRunEnd := wt\<rparr>) p e sid w = runCompaction env p e sid w"
  by (simp add: runCompaction_def compactParams_wait incrementCompactionCount_wait Let_def
      cong del: if_weak_cong option.case_cong_weak)

lemma handleCompact_wait:
  "handleCompact (env\<lparr>waitForEmbeddedPiRunEnd := wt\<rparr>) p w = handleCompact env p w"
  by (simp add: handleCompact_def runCompaction_wait Let_def
      cong del: if_weak_cong option.case_cong_weak)

lemma activation_denied_iff:
  "(\<not> isAuthorizedSender cmd \<or> (isWhatsAppSurface cmd \<and> \<not> isActivationOwner env cmd)) =
   (\<not> activationAllowed env cmd)"
  by (auto simp add: isActivationOwner_def activationAllowed_def activationSenderE164_def Let_def
      split: option.splits)

lemma handleActivation_group:
  "isGroup p \<Longrightarrow>
   handleActivation env p ac w =
     (if \<not> activationAllowed env (command p)
      then (silent,
            logVerbose (''Ignoring /activation from unauthorized sender in group: '' @
                        or_default (senderE164 (command p)) ''<unknown>'') w)
      else (case mode ac of
              None \<Rightarrow> (replyWith (gear @ '' Usage: /activation mention|always''), w)
            | Some m \<Rightarrow>
                (replyWith (gear @ '' Group activation set to '' @ activation_text m @ ''.''),
                 case mutateEntry env p
                        (\<lambda>e. e\<lparr>groupActivation := Some m,
                                groupActivationNeedsSystemIntro := Some True\<rparr>) w of
                   None \<Rightarrow> w
                 | Some w' \<Rightarrow> w')))"
  unfolding handleActivation_def Let_def activation_denied_iff by simp

lemma mutateEntry_guard:
  "sessionEntry w = Some e \<Longrightarrow> sessionStore w = Some st \<Longrightarrow> sessionKey p = Some k \<Longrightarrow> k \<noteq> [] \<Longrightarrow>
   mutateEntry env p f w = Some (touchAndStore env (f e) st k (storePath p) w)"
  by (simp add: mutateEntry_def)

lemma mutateEntry_no_guard: "\<not> entryGuard p w \<Longrightarrow> mutateEntry env p f w = None"
  by (auto simp add: mutateEntry_def entryGuard_def truthy_def split: option.splits)

lemma touchAndStore_fields:
  "sessionEntry (touchAndStore env e st k path w) = Some (e\<lparr>updatedAt := now env\<rparr>)"
  "sessionStore (touchAndStore env e st k path w) = Some (st(k \<mapsto> e\<lparr>updatedAt := now env\<rparr>))"
  "abortMemory (touchAndStore env e st k path w) = abortMemory w"
  "disk (touchAndStore env e st k path w) =
     (case path of
        None \<Rightarrow> disk w
      | Some sp \<Rightarrow> if sp = [] then disk w else (disk w)(sp \<mapsto> st(k \<mapsto> e\<lparr>updatedAt := now env\<rparr>)))"
  "trace (touchAndStore env e st k path w) =
     (case path of
        None \<Rightarrow> trace w
      | Some sp \<Rightarrow> if sp = [] then trace w
                  else trace w @ [SaveSessionStore sp (st(k \<mapsto> e\<lparr>updatedAt := now env\<rparr>))])"
  by (simp_all add: touchAndStore_def saveSessionStore_def emit_def Let_def split: option.splits)

lemma classify_now: "classify (env\<lparr>now := t\<rparr>) p = classify env p"
  by (simp add: classify_def Let_def)

lemma handleAbort_guard:
  assumes "sessionEntry w = Some e" "sessionStore w = Some st" "sessionKey p = Some k" "k \<noteq> []"
  shows "handleAbort env p w =
           (replyWith (gear @ '' Agent was aborted.''),
            touchAndStore env (e\<lparr>abortedLastRun := Some True\<rparr>) st k (storePath p) w)"
  by (simp add: handleAbort_def mutateEntry_guard [OF assms])

lemma handleAbort_no_guard:
  "\<not> entryGuard p w \<Longrightarrow>
   handleAbort env p w =
     (replyWith (gear @ '' Agent was aborted.''),
      case abortKey (command p) of
        None \<Rightarrow> w
      | Some a \<Rightarrow> if a = [] then w else setAbortMemory a True w)"
  by (simp add: handleAbort_def mutateEntry_no_guard)

lemma stored_touchAndStore:
  "stored (touchAndStore env e st k path w) =
     (Some (e\<lparr>updatedAt := now env\<rparr>), Some (st(k \<mapsto> e\<lparr>updatedAt := now env\<rparr>)),
      (case path of
         None \<Rightarrow> disk w
       | Some sp \<Rightarrow> if sp = [] then disk w else (disk w)(sp \<mapsto> st(k \<mapsto> e\<lparr>updatedAt := now env\<rparr>))),
      abortMemory w)"
  by (simp add: stored_def touchAndStore_fields)

lemma stored_setAbortMemory:
  "stored (setAbortMemory a v w) = (sessionEntry w, sessionStore w, disk w, (abortMemory w)(a \<mapsto> v))"
  by (simp add: stored_def setAbortMemory_def emit_def)

lemma entryGuard_setAbortMemory: "entryGuard p (setAbortMemory a v w) = entryGuard p w"
  by (simp add: entryGuard_def setAbortMemory_def emit_def)

lemma handleAbort_twice:
  "fst (handleAbort env2 p (snd (handleAbort env p w))) = fst (handleAbort env p w) \<and>
   stored (snd (handleAbort env2 p (snd (handleAbort env p w)))) = stored (snd (handleAbort env2 p w))"
proof (cases "entryGuard p w")
  case True
  then obtain e st k where g: "sessionEntry w = Some e" "sessionStore w = Some st"
      "sessionKey p = Some k" "k \<noteq> []"
    by (auto simp add: entryGuard_def truthy_def split: option.splits)
  let ?w1 = "touchAndStore env (e\<lparr>abortedLastRun := Some True\<rparr>) st k (storePath p) w"
  have g1: "sessionEntry ?w1 = Some (e\<lparr>abortedLastRun := Some True, updatedAt := now env\<rparr>)"
      "sessionStore ?w1 = Some (st(k \<mapsto> e\<lparr>abortedLastRun := Some True, updatedAt := now env\<rparr>))"
    by (simp_all add: touchAndStore_fields)
  show ?thesis
    by (simp add: handleAbort_guard [OF g] handleAbort_guard [OF g1 g(3,4)] stored_touchAndStore
        touchAndStore_fields split: option.splits)
next
  case False
  show ?thesis
  proof (cases "truthy (abortKey (command p))")
    case True
    then obtain a where a: "abortKey (command p) = Some a" "a \<noteq> []"
      by (auto simp add: truthy_def split: option.splits)
    have "\<not> entryGuard p (setAbortMemory a True w)" using False by (simp add: entryGuard_setAbortMemory)
    then show ?thesis using False a
      by (simp add: handleAbort_no_guard stored_def setAbortMemory_def emit_def)
  next
    case nokey: False
    then show ?thesis using False
      by (auto simp add: handleAbort_no_guard truthy_def split: option.splits)
  qed
qed

lemmas dispatch_defs = handleCommands_def handleActivation_def handleSendPolicy_def
  handleRestart_def handleHelp_def handleStatus_def handleCompact_def handleAbort_def
  sendPolicyGate_def isActivationOwner_def activationSenderE164_def mutateEntry_def
  touchAndStore_def saveSessionStore_def setAbortMemory_def logVerbose_def emit_def
  replyWith_def silent_def sendPolicyLabel_def activation_text_def truthy_def or_default_def
  Let_def

section \<open>The claims\<close>

subsection \<open>Detection\<close>

text \<open>
  C9. \<open>hasControlCommand\<close> accepts the whole token set, synonyms included: it is true of
  \<^verbatim>\<open>"ok /v"\<close> (also with a no-break space, U+00A0, for the space) and of \<^verbatim>\<open>"/model"\<close>, and
  false of \<^verbatim>\<open>"just chatting"\<close>. In general it is true of every text whose trimmed form is,
  in any casing, one of the eight exact commands, and of every text that holds one of the
  seventeen tokens (\<^verbatim>\<open>status\<close>, \<^verbatim>\<open>help\<close>, \<^verbatim>\<open>thinking\<close>, \<^verbatim>\<open>think\<close>, \<^verbatim>\<open>t\<close>, \<^verbatim>\<open>verbose\<close>,
  \<^verbatim>\<open>v\<close>, \<^verbatim>\<open>elevated\<close>, \<^verbatim>\<open>elev\<close>, \<^verbatim>\<open>model\<close>, \<^verbatim>\<open>queue\<close>, \<^verbatim>\<open>activation\<close>, \<^verbatim>\<open>send\<close>,
  \<^verbatim>\<open>restart\<close>, \<^verbatim>\<open>reset\<close>, \<^verbatim>\<open>new\<close>, \<^verbatim>\<open>compact\<close>), in any casing, after a \<^verbatim>\<open>/\<close> that
  starts the text or follows a white space character, and before the end of the text, a
  white space character or a colon.
\<close>

theorem hasControlCommand_token_set:
  "hasControlCommand (Some ''ok /v'') \<and>
   hasControlCommand (Some (''ok'' @ [CHR 0xC2, CHR 0xA0] @ ''/v'')) \<and>
   hasControlCommand (Some ''/model'') \<and>
   \<not> hasControlCommand (Some ''just chatting'') \<and>
   (\<forall>t. toLowerCase (trim t) \<in>
          {''/help'', ''/status'', ''/restart'', ''/activation'', ''/send'', ''/reset'', ''/new'',
           ''/compact''} \<longrightarrow>
        hasControlCommand (Some t)) \<and>
   (\<forall>pre cased post.
      toLowerCase cased \<in>
        {''status'', ''help'', ''thinking'', ''think'', ''t'', ''verbose'', ''v'', ''elevated'',
         ''elev'', ''model'', ''queue'', ''activation'', ''send'', ''restart'', ''reset'', ''new'',
         ''compact''} \<and>
      (pre = [] \<or> (\<exists>w \<in> set WHITE_SPACE. \<exists>q. pre = q @ w)) \<and>
      (post = [] \<or> (\<exists>w \<in> set WHITE_SPACE. \<exists>q. post = w @ q) \<or> hd post = CHR '':'') \<longrightarrow>
      hasControlCommand (Some (pre @ CHR ''/'' # cased @ post)))"
proof -
  have a: "hasControlCommand (Some ''ok /v'')"
    by (simp add: hasControlCommand_def CONTROL_COMMAND_EXACT_def CONTROL_COMMAND_RE_def str_defs)
  have a': "hasControlCommand (Some (''ok'' @ [CHR 0xC2, CHR 0xA0] @ ''/v''))"
    by (simp add: hasControlCommand_def CONTROL_COMMAND_EXACT_def CONTROL_COMMAND_RE_def str_defs)
  have b: "hasControlCommand (Some ''/model'')"
    by (simp add: hasControlCommand_def CONTROL_COMMAND_EXACT_def CONTROL_COMMAND_RE_def str_defs)
  have c: "\<not> hasControlCommand (Some ''just chatting'')"
    by (simp add: hasControlCommand_def CONTROL_COMMAND_EXACT_def CONTROL_COMMAND_RE_def str_defs)
  have e: "set CONTROL_COMMAND_EXACT =
      {''/help'', ''/status'', ''/restart'', ''/activation'', ''/send'', ''/reset'', ''/new'',
       ''/compact''}"
    by (simp add: CONTROL_COMMAND_EXACT_def)
  have r: "set CONTROL_COMMAND_RE =
      {''status'', ''help'', ''thinking'', ''think'', ''t'', ''verbose'', ''v'', ''elevated'',
       ''elev'', ''model'', ''queue'', ''activation'', ''send'', ''restart'', ''reset'', ''new'',
       ''compact''}"
    by (simp add: CONTROL_COMMAND_RE_def)
  show ?thesis
    unfolding e [symmetric] r [symmetric]
    using a a' b c hasControlCommand_exact hasControlCommand_token by blast
qed

theorem hasControlCommand_token_set_witness:
  "hasControlCommand (Some ([CHR 0xC2, CHR 0xA0] @ '' /Compact '')) \<and>
   hasControlCommand (Some ''please /THINK: high'') \<and>
   hasControlCommand (Some (''now'' @ [CHR 0xE3, CHR 0x80, CHR 0x80] @ ''/Queue'' @
                            [CHR 0xE2, CHR 0x80, CHR 0xA8] @ ''later''))"
proof -
  note all = hasControlCommand_token_set
  have exact: "\<forall>t. toLowerCase (trim t) \<in>
          {''/help'', ''/status'', ''/restart'', ''/activation'', ''/send'', ''/reset'', ''/new'',
           ''/compact''} \<longrightarrow>
        hasControlCommand (Some t)"
    using all by (elim conjE)
  have token: "\<forall>pre cased post.
      toLowerCase cased \<in>
        {''status'', ''help'', ''thinking'', ''think'', ''t'', ''verbose'', ''v'', ''elevated'',
         ''elev'', ''model'', ''queue'', ''activation'', ''send'', ''restart'', ''reset'', ''new'',
         ''compact''} \<and>
      (pre = [] \<or> (\<exists>w \<in> set WHITE_SPACE. \<exists>q. pre = q @ w)) \<and>
      (post = [] \<or> (\<exists>w \<in> set WHITE_SPACE. \<exists>q. post = w @ q) \<or> hd post = CHR '':'') \<longrightarrow>
      hasControlCommand (Some (pre @ CHR ''/'' # cased @ post))"
    using all by (elim conjE)
  have 1: "hasControlCommand (Some ([CHR 0xC2, CHR 0xA0] @ '' /Compact ''))"
    using exact [rule_format, of "[CHR 0xC2, CHR 0xA0] @ '' /Compact ''"]
    by (simp add: str_defs)
  have "[CHR 0x20] \<in> set WHITE_SPACE" by (simp add: WHITE_SPACE_def)
  then have p2: "\<exists>w \<in> set WHITE_SPACE. \<exists>q. ''please '' = q @ w"
    by (intro bexI [of _ "[CHR 0x20]"] exI [of _ "''please''"]) simp_all
  have 2: "hasControlCommand (Some (''please '' @ CHR ''/'' # ''THINK'' @ '': high''))"
    using token [rule_format, of "''THINK''" "''please ''" "'': high''"] p2
    by (simp add: str_defs)
  have i3: "[CHR 0xE3, CHR 0x80, CHR 0x80] \<in> set WHITE_SPACE"
    and l3: "[CHR 0xE2, CHR 0x80, CHR 0xA8] \<in> set WHITE_SPACE"
    by (simp_all add: WHITE_SPACE_def)
  have p3: "\<exists>w \<in> set WHITE_SPACE. \<exists>q. ''now'' @ [CHR 0xE3, CHR 0x80, CHR 0x80] = q @ w"
    using i3 by (intro bexI [of _ "[CHR 0xE3, CHR 0x80, CHR 0x80]"] exI [of _ "''now''"]) simp_all
  have q3: "\<exists>w \<in> set WHITE_SPACE. \<exists>q. [CHR 0xE2, CHR 0x80, CHR 0xA8] @ ''later'' = w @ q"
    using l3 by (intro bexI [of _ "[CHR 0xE2, CHR 0x80, CHR 0xA8]"] exI [of _ "''later''"]) simp_all
  have 3: "hasControlCommand (Some ((''now'' @ [CHR 0xE3, CHR 0x80, CHR 0x80]) @ CHR ''/'' #
             ''Queue'' @ [CHR 0xE2, CHR 0x80, CHR 0xA8] @ ''later''))"
    using token [rule_format, of "''Queue''" "''now'' @ [CHR 0xE3, CHR 0x80, CHR 0x80]"
        "[CHR 0xE2, CHR 0x80, CHR 0xA8] @ ''later''"] p3 q3
    by (simp add: str_defs)
  show ?thesis using 1 2 3 by simp
qed

subsection \<open>Authorization\<close>

text \<open>
  C1. A privileged command from a sender who is not authorized is denied in silence: when
  the message is \<^verbatim>\<open>/reset\<close> or \<^verbatim>\<open>/new\<close>, a \<^verbatim>\<open>/send\<close>, \<^verbatim>\<open>/restart\<close>, \<^verbatim>\<open>/help\<close>,
  \<^verbatim>\<open>/status\<close> or \<^verbatim>\<open>/compact\<close> command, or an \<^verbatim>\<open>/activation\<close> command in a group, and
  \<^verbatim>\<open>isAuthorizedSender\<close> is false, \<open>handleCommands\<close> returns no reply and
  \<^verbatim>\<open>shouldContinue = false\<close>; it changes nothing and writes one line to the log.
\<close>

theorem unauthorized_privileged_silent:
  assumes unauth: "\<not> isAuthorizedSender (command p)"
    and priv: "classify env p \<in> {Reset, SetSendPolicy, Restart, Help, Status, Compact} \<or>
               (classify env p = SetActivation \<and> isGroup p)"
  shows "reply (fst (handleCommands env p w)) = None \<and>
         \<not> shouldContinue (fst (handleCommands env p w)) \<and>
         stored (snd (handleCommands env p w)) = stored w \<and>
         (\<exists>msg. trace (snd (handleCommands env p w)) = trace w @ [LogVerbose msg])"
proof -
  have "denied w (handleCommands env p w)"
  proof (cases "classify env p")
    case Reset
    then show ?thesis using unauth by (simp add: hc_reset deniedI)
  next
    case SetActivation
    then have "isGroup p" using priv by simp
    then show ?thesis
      using unauth SetActivation
      by (simp add: hc_activation classify_activation handleActivation_def Let_def deniedI)
  next
    case SetSendPolicy
    then show ?thesis using unauth by (simp add: hc_send handleSendPolicy_def Let_def deniedI)
  next
    case Restart
    then show ?thesis using unauth by (simp add: hc_restart handleRestart_def Let_def deniedI)
  next
    case Help
    then show ?thesis using unauth by (simp add: hc_help handleHelp_def Let_def deniedI)
  next
    case Status
    then show ?thesis using unauth by (simp add: hc_status handleStatus_def Let_def deniedI)
  next
    case Compact
    then show ?thesis using unauth by (simp add: hc_compact handleCompact_def Let_def deniedI)
  next
    case Abort
    then show ?thesis using priv by simp
  next
    case NoCommand
    then show ?thesis using priv by simp
  qed
  then show ?thesis by (auto simp add: denied_def silent_def)
qed

theorem unauthorized_privileged_silent_witness:
  "reply (fst (handleCommands sampleEnv (sampleParams (sampleCommand False ''/compact'') False None)
                 (sampleWorld None None))) = None \<and>
   \<not> shouldContinue (fst (handleCommands sampleEnv
                 (sampleParams (sampleCommand False ''/compact'') False None)
                 (sampleWorld None None))) \<and>
   reply (fst (handleCommands sampleEnv
                 (sampleParams (sampleCommand False ''/activation mention'') True None)
                 (sampleWorld None None))) = None \<and>
   \<not> shouldContinue (fst (handleCommands sampleEnv
                 (sampleParams (sampleCommand False ''/activation mention'') True None)
                 (sampleWorld None None)))"
proof -
  let ?p = "sampleParams (sampleCommand False ''/compact'') False None"
  let ?q = "sampleParams (sampleCommand False ''/activation mention'') True None"
  have u: "\<not> isAuthorizedSender (command ?p)" "\<not> isAuthorizedSender (command ?q)"
    by (simp_all add: sample_defs)
  have c: "classify sampleEnv ?p = Compact"
    by (simp add: classify_def trigger_defs parse_defs sample_defs str_defs)
  have d: "classify sampleEnv ?q = SetActivation \<and> isGroup ?q"
    by (simp add: classify_def trigger_defs parse_defs sample_defs str_defs)
  show ?thesis
    using unauthorized_privileged_silent [OF u(1), of sampleEnv "sampleWorld None None"]
      unauthorized_privileged_silent [OF u(2), of sampleEnv "sampleWorld None None"] c d
    by simp
qed

subsection \<open>Compaction\<close>

text \<open>
  C2. An authorized \<^verbatim>\<open>/compact\<close> for an entry with a session id whose run is active first
  asks whether the run is active, then cancels it, then waits for its end with a timeout of
  15000 ms, and only then calls the compaction. What the wait answers (the end of the run,
  or the timeout) changes neither the calls nor the result: the compaction goes ahead and
  the reply is that of the compaction.
\<close>

theorem compact_cancels_waits_compacts:
  assumes cls: "classify env p = Compact"
    and auth: "isAuthorizedSender (command p)"
    and entry: "sessionEntry w = Some e"
    and sid: "sessionId e = Some sid" "sid \<noteq> []"
    and active: "isEmbeddedPiRunActive env sid"
  shows "(\<exists>rest. trace (snd (handleCommands env p w)) =
            trace w @ [IsEmbeddedPiRunActive sid, AbortEmbeddedPiRun sid,
                       WaitForEmbeddedPiRunEnd sid 15000,
                       CompactEmbeddedPiSession (compactParams env p e sid)] @ rest) \<and>
         (\<exists>t. fst (handleCommands env p w) = \<lparr>reply = Some t, shouldContinue = False\<rparr>) \<and>
         (\<forall>wt. handleCommands (env\<lparr>waitForEmbeddedPiRunEnd := wt\<rparr>) p w = handleCommands env p w)"
proof -
  let ?w2 = "emit (WaitForEmbeddedPiRunEnd sid 15000)
               (emit (AbortEmbeddedPiRun sid) (emit (IsEmbeddedPiRunActive sid) w))"
  have hc: "handleCommands env p w = runCompaction env p e sid ?w2"
    using auth entry sid active by (simp add: hc_compact [OF cls] handleCompact_def Let_def)
  obtain rest where "trace (snd (runCompaction env p e sid ?w2)) =
      trace ?w2 @ CompactEmbeddedPiSession (compactParams env p e sid) # rest"
    using trace_runCompaction by blast
  then have "trace (snd (handleCommands env p w)) =
            trace w @ [IsEmbeddedPiRunActive sid, AbortEmbeddedPiRun sid,
                       WaitForEmbeddedPiRunEnd sid 15000,
                       CompactEmbeddedPiSession (compactParams env p e sid)] @ rest"
    by (simp add: hc emit_def)
  moreover have "\<exists>t. fst (handleCommands env p w) = \<lparr>reply = Some t, shouldContinue = False\<rparr>"
    by (simp add: hc reply_runCompaction)
  moreover have "\<forall>wt. handleCommands (env\<lparr>waitForEmbeddedPiRunEnd := wt\<rparr>) p w = handleCommands env p w"
    using cls by (simp add: hc_compact classify_wait handleCompact_wait)
  ultimately show ?thesis by blast
qed

theorem compact_cancels_waits_compacts_witness:
  "\<exists>rest. trace (snd (handleCommands sampleEnv
              (sampleParams (sampleCommand True ''/compact'') False None)
              (sampleWorld (Some (sampleEntry (Some ''s1''))) None))) =
     [IsEmbeddedPiRunActive ''s1'', AbortEmbeddedPiRun ''s1'',
      WaitForEmbeddedPiRunEnd ''s1'' 15000,
      CompactEmbeddedPiSession
        (compactParams sampleEnv (sampleParams (sampleCommand True ''/compact'') False None)
           (sampleEntry (Some ''s1'')) ''s1'')] @ rest"
proof -
  let ?p = "sampleParams (sampleCommand True ''/compact'') False None"
  let ?w = "sampleWorld (Some (sampleEntry (Some ''s1''))) None"
  have c: "classify sampleEnv ?p = Compact"
    by (simp add: classify_def trigger_defs parse_defs sample_defs str_defs)
  have a: "isAuthorizedSender (command ?p)" by (simp add: sample_defs)
  have e: "sessionEntry ?w = Some (sampleEntry (Some ''s1''))" by (simp add: sample_defs)
  have s: "sessionId (sampleEntry (Some ''s1'')) = Some ''s1''" "''s1'' \<noteq> []"
    by (simp_all add: sample_defs)
  have r: "isEmbeddedPiRunActive sampleEnv ''s1''" by (simp add: sample_defs)
  have t: "trace ?w = []" by (simp add: sample_defs)
  show ?thesis
    using compact_cancels_waits_compacts [OF c a e s r] t by simp
qed

text \<open>
  C6. An authorized \<^verbatim>\<open>/compact\<close> with no session entry, or with an entry that has no
  session id, is answered with the reply "Compaction unavailable (missing session id)." and
  \<^verbatim>\<open>shouldContinue = false\<close>; the state and the trace are those before the call, so there
  is no check for an active run, no cancellation, no wait and no compaction.
\<close>

theorem compact_without_session_id:
  assumes cls: "classify env p = Compact"
    and auth: "isAuthorizedSender (command p)"
    and nosid: "case sessionEntry w of None \<Rightarrow> True | Some e \<Rightarrow> \<not> truthy (sessionId e)"
  shows "handleCommands env p w =
           (\<lparr>reply = Some (gear @ '' Compaction unavailable (missing session id).''),
             shouldContinue = False\<rparr>, w)"
  using auth nosid
  by (auto simp add: hc_compact [OF cls] handleCompact_def Let_def replyWith_def truthy_def
      split: option.splits)

theorem compact_without_session_id_witness:
  "handleCommands sampleEnv (sampleParams (sampleCommand True ''/compact'') False None)
     (sampleWorld (Some (sampleEntry None)) None) =
   (\<lparr>reply = Some (gear @ '' Compaction unavailable (missing session id).''),
     shouldContinue = False\<rparr>, sampleWorld (Some (sampleEntry None)) None)"
proof -
  let ?p = "sampleParams (sampleCommand True ''/compact'') False None"
  let ?w = "sampleWorld (Some (sampleEntry None)) None"
  have c: "classify sampleEnv ?p = Compact"
    by (simp add: classify_def trigger_defs parse_defs sample_defs str_defs)
  have a: "isAuthorizedSender (command ?p)" by (simp add: sample_defs)
  have n: "case sessionEntry ?w of None \<Rightarrow> True | Some e \<Rightarrow> \<not> truthy (sessionId e)"
    by (simp add: sample_defs truthy_def)
  show ?thesis using compact_without_session_id [OF c a n] .
qed

subsection \<open>Group activation\<close>

text \<open>
  C4. An \<^verbatim>\<open>/activation\<close> command outside a group is answered with "Group activation only
  applies to group chats." and \<^verbatim>\<open>shouldContinue = false\<close>, whoever the sender is,
  authorized or not; the state and the trace are those before the call: nothing is mutated
  and no denial is logged, the reply comes before any check of the sender.
\<close>

theorem activation_outside_group:
  assumes act: "hasCommand (parseActivationCommand (Some (commandBodyNormalized (command p))))"
    and nogroup: "\<not> isGroup p"
  shows "handleCommands env p w =
           (\<lparr>reply = Some (gear @ '' Group activation only applies to group chats.''),
             shouldContinue = False\<rparr>, w)"
  using nogroup by (simp add: hc_activation [OF act] handleActivation_def Let_def replyWith_def)

theorem activation_outside_group_witness:
  "handleCommands sampleEnv (sampleParams (sampleCommand False ''/activation always'') False None)
     (sampleWorld (Some (sampleEntry None)) (Some Map.empty)) =
   (\<lparr>reply = Some (gear @ '' Group activation only applies to group chats.''),
     shouldContinue = False\<rparr>, sampleWorld (Some (sampleEntry None)) (Some Map.empty))"
proof -
  let ?p = "sampleParams (sampleCommand False ''/activation always'') False None"
  have a: "hasCommand (parseActivationCommand (Some (commandBodyNormalized (command ?p))))"
    by (simp add: parse_defs sample_defs str_defs)
  have g: "\<not> isGroup ?p" by (simp add: sample_defs)
  show ?thesis using activation_outside_group [OF a g] .
qed

text \<open>
  C3. For an \<^verbatim>\<open>/activation\<close> command in a group: on the WhatsApp surface with a non-empty
  owner list the command is allowed only when the sender is authorized and the sender has a
  number whose normalized E.164 form (\<^verbatim>\<open>normalizeE164\<close> of \<^verbatim>\<open>senderE164\<close>) is in the owner
  list; on another surface, or with an empty owner list, it is allowed when the sender is
  authorized. An allowed command is answered (with the usage when it has no mode, with the
  confirmation otherwise); a command that is not allowed gets no reply and
  \<^verbatim>\<open>shouldContinue = false\<close>, and changes nothing.
\<close>

theorem activation_authorization:
  assumes cls: "classify env p = SetActivation" and grp: "isGroup p"
  shows "(let cmd = command p;
              res = handleCommands env p w;
              inOwnerList =
                (case senderE164 cmd of
                   None \<Rightarrow> False
                 | Some s \<Rightarrow> s \<noteq> [] \<and> normalizeE164 env s \<noteq> [] \<and>
                            normalizeE164 env s \<in> set (ownerList cmd));
              allowed =
                (if isWhatsAppSurface cmd \<and> ownerList cmd \<noteq> []
                 then isAuthorizedSender cmd \<and> inOwnerList
                 else isAuthorizedSender cmd)
          in (allowed \<longrightarrow>
                reply (fst res) =
                  Some (case mode (parseActivationCommand (Some (commandBodyNormalized cmd))) of
                          None \<Rightarrow> gear @ '' Usage: /activation mention|always''
                        | Some m \<Rightarrow> gear @ '' Group activation set to '' @ activation_text m @ ''.'') \<and>
                \<not> shouldContinue (fst res)) \<and>
             (\<not> allowed \<longrightarrow>
                fst res = \<lparr>reply = None, shouldContinue = False\<rparr> \<and>
                stored (snd res) = stored w))"
  by (simp add: hc_activation [OF classify_activation [OF cls]] handleActivation_group [OF grp]
      activationAllowed_def Let_def silent_def replyWith_def stored_logVerbose
      split: option.splits)

theorem activation_authorization_witness:
  "fst (handleCommands sampleEnv
          (sampleParams ((sampleCommand True ''/activation always'')
             \<lparr>isWhatsAppSurface := True, ownerList := [''+15550001''],
              senderE164 := Some ''whatsapp:+15550002''\<rparr>) True None)
          (sampleWorld (Some (sampleEntry None)) (Some Map.empty))) =
     \<lparr>reply = None, shouldContinue = False\<rparr> \<and>
   reply (fst (handleCommands sampleEnv
          (sampleParams ((sampleCommand True (''/activation'' @ [CHR 0xC2, CHR 0xA0] @ ''always''))
             \<lparr>isWhatsAppSurface := True, ownerList := [''+15550001''],
              senderE164 := Some ''whatsapp:+15550001''\<rparr>) True None)
          (sampleWorld (Some (sampleEntry None)) (Some Map.empty)))) =
     Some (gear @ '' Group activation set to always.'')"
proof -
  let ?c2 = "(sampleCommand True ''/activation always'')
             \<lparr>isWhatsAppSurface := True, ownerList := [''+15550001''],
              senderE164 := Some ''whatsapp:+15550002''\<rparr>"
  let ?c1 = "(sampleCommand True (''/activation'' @ [CHR 0xC2, CHR 0xA0] @ ''always''))
             \<lparr>isWhatsAppSurface := True, ownerList := [''+15550001''],
              senderE164 := Some ''whatsapp:+15550001''\<rparr>"
  let ?w = "sampleWorld (Some (sampleEntry None)) (Some Map.empty)"
  have c2: "classify sampleEnv (sampleParams ?c2 True None) = SetActivation"
    by (simp add: classify_def trigger_defs parse_defs sample_defs str_defs)
  have c1: "classify sampleEnv (sampleParams ?c1 True None) = SetActivation"
    by (simp add: classify_def trigger_defs parse_defs sample_defs str_defs)
  have g2: "isGroup (sampleParams ?c2 True None)" by (simp add: sample_defs)
  have g1: "isGroup (sampleParams ?c1 True None)" by (simp add: sample_defs)
  have d: "fst (handleCommands sampleEnv (sampleParams ?c2 True None) ?w) =
             \<lparr>reply = None, shouldContinue = False\<rparr>"
    using activation_authorization [OF c2 g2, of ?w]
    by (simp add: Let_def sample_defs)
  have a: "reply (fst (handleCommands sampleEnv (sampleParams ?c1 True None) ?w)) =
             Some (gear @ '' Group activation set to always.'')"
    using activation_authorization [OF c1 g1, of ?w]
    by (simp add: Let_def sample_defs parse_defs str_defs activation_text_def)
  show ?thesis using d a by simp
qed

subsection \<open>Mutations of the session entry\<close>

text \<open>
  C5, as stated, asks that the store be persisted whenever entry, store and key are
  present. It is not when there is no store path: the authorized \<^verbatim>\<open>/send on\<close> below
  sets the policy of the entry in memory, and nothing is written.
\<close>

theorem send_policy_persisted_counterexample:
  "map_option sendPolicy (sessionEntry (snd (handleCommands sampleEnv
       (sampleParams (sampleCommand True ''/send on'') False None)
       (sampleWorld (Some (sampleEntry None)) (Some Map.empty))))) = Some (Some Allow) \<and>
   disk (snd (handleCommands sampleEnv
       (sampleParams (sampleCommand True ''/send on'') False None)
       (sampleWorld (Some (sampleEntry None)) (Some Map.empty)))) = Map.empty \<and>
   trace (snd (handleCommands sampleEnv
       (sampleParams (sampleCommand True ''/send on'') False None)
       (sampleWorld (Some (sampleEntry None)) (Some Map.empty)))) = []"
  by (simp add: dispatch_defs trigger_defs parse_defs sample_defs str_defs)

text \<open>
  C5, amended. An authorized \<^verbatim>\<open>/send\<close> command with a parsed mode, with the entry, the
  store and a non-empty session key present: the mode \<^verbatim>\<open>inherit\<close> removes the field
  \<^verbatim>\<open>sendPolicy\<close> (it is absent, not the value \<^verbatim>\<open>inherit\<close>), \<^verbatim>\<open>allow\<close> and \<^verbatim>\<open>deny\<close> set it to
  that value; \<^verbatim>\<open>updatedAt\<close> is the time of the call and the entry is put in the store under
  the key; the store is written to the store path when there is one, and not written when
  there is none; the reply has the label \<^verbatim>\<open>inherit\<close>, \<^verbatim>\<open>on\<close> or \<^verbatim>\<open>off\<close>.
\<close>

theorem send_policy_set:
  assumes cls: "classify env p = SetSendPolicy"
    and auth: "isAuthorizedSender (command p)"
    and md: "mode (parseSendPolicyCommand env (commandBodyNormalized (command p))) = Some m"
    and entry: "sessionEntry w = Some e" and store: "sessionStore w = Some st"
    and key: "sessionKey p = Some k" "k \<noteq> []"
  shows "(let e' = e\<lparr>sendPolicy := (case m of Inherit \<Rightarrow> None | Allow \<Rightarrow> Some Allow | Deny \<Rightarrow> Some Deny),
                    updatedAt := now env\<rparr> in
          fst (handleCommands env p w) =
            \<lparr>reply = Some (gear @ '' Send policy set to '' @
                           (case m of Inherit \<Rightarrow> ''inherit'' | Allow \<Rightarrow> ''on'' | Deny \<Rightarrow> ''off'') @
                           ''.''),
             shouldContinue = False\<rparr> \<and>
          sessionEntry (snd (handleCommands env p w)) = Some e' \<and>
          sessionStore (snd (handleCommands env p w)) = Some (st(k \<mapsto> e')) \<and>
          (\<forall>path. storePath p = Some path \<and> path \<noteq> [] \<longrightarrow>
             disk (snd (handleCommands env p w)) = (disk w)(path \<mapsto> st(k \<mapsto> e')) \<and>
             trace (snd (handleCommands env p w)) = trace w @ [SaveSessionStore path (st(k \<mapsto> e'))]) \<and>
          (\<not> truthy (storePath p) \<longrightarrow>
             disk (snd (handleCommands env p w)) = disk w \<and>
             trace (snd (handleCommands env p w)) = trace w))"
  using auth md
  by (cases m)
     (auto simp add: hc_send [OF cls] handleSendPolicy_def Let_def replyWith_def sendPolicyLabel_def
        mutateEntry_guard [OF entry store key] touchAndStore_fields truthy_def
        split: option.splits)

theorem send_policy_set_witness:
  "sessionEntry (snd (handleCommands sampleEnv
       (sampleParams (sampleCommand True ''/send inherit'') False (Some ''/sessions.json''))
       (sampleWorld (Some (sampleEntry None)) (Some Map.empty)))) =
     Some ((sampleEntry None)\<lparr>sendPolicy := None, updatedAt := 1000\<rparr>) \<and>
   disk (snd (handleCommands sampleEnv
       (sampleParams (sampleCommand True ''/send inherit'') False (Some ''/sessions.json''))
       (sampleWorld (Some (sampleEntry None)) (Some Map.empty)))) =
     [''/sessions.json'' \<mapsto> [''main'' \<mapsto> (sampleEntry None)\<lparr>sendPolicy := None, updatedAt := 1000\<rparr>]]"
proof -
  let ?p = "sampleParams (sampleCommand True ''/send inherit'') False (Some ''/sessions.json'')"
  let ?w = "sampleWorld (Some (sampleEntry None)) (Some Map.empty)"
  have c: "classify sampleEnv ?p = SetSendPolicy"
    by (simp add: classify_def trigger_defs parse_defs sample_defs str_defs)
  have a: "isAuthorizedSender (command ?p)" by (simp add: sample_defs)
  have m: "mode (parseSendPolicyCommand sampleEnv (commandBodyNormalized (command ?p))) = Some Inherit"
    by (simp add: sample_defs)
  have e: "sessionEntry ?w = Some (sampleEntry None)" and s: "sessionStore ?w = Some Map.empty"
    by (simp_all add: sample_defs)
  have k: "sessionKey ?p = Some ''main''" "''main'' \<noteq> []" by (simp_all add: sample_defs)
  have sp: "storePath ?p = Some ''/sessions.json''" "now sampleEnv = 1000" "disk ?w = Map.empty"
    by (simp_all add: sample_defs)
  show ?thesis
    using send_policy_set [OF c a m e s k] sp by (simp add: Let_def)
qed

text \<open>
  C7, as stated, asks that the abort trigger set \<^verbatim>\<open>abortedLastRun\<close> on the session entry
  whenever an entry exists. Below an entry exists and no store is passed: the entry is left
  as it was, and the flag goes to the abort memory instead.
\<close>

theorem abort_entry_counterexample:
  "reply (fst (handleCommands sampleEnv
       (sampleParams ((sampleCommand False ''stop'')\<lparr>abortKey := Some ''main''\<rparr>) False None)
       (sampleWorld (Some (sampleEntry None)) None))) = Some (gear @ '' Agent was aborted.'') \<and>
   map_option abortedLastRun (sessionEntry (snd (handleCommands sampleEnv
       (sampleParams ((sampleCommand False ''stop'')\<lparr>abortKey := Some ''main''\<rparr>) False None)
       (sampleWorld (Some (sampleEntry None)) None)))) = Some None \<and>
   abortMemory (snd (handleCommands sampleEnv
       (sampleParams ((sampleCommand False ''stop'')\<lparr>abortKey := Some ''main''\<rparr>) False None)
       (sampleWorld (Some (sampleEntry None)) None))) ''main'' = Some True"
  by (simp add: dispatch_defs trigger_defs parse_defs sample_defs str_defs)

text \<open>
  C7, amended. The abort trigger has no authorization gate: for every sender, a message
  whose command is the abort trigger is answered "Agent was aborted." with
  \<^verbatim>\<open>shouldContinue = false\<close>. When the entry, the store and a non-empty session key are all
  present, \<^verbatim>\<open>abortedLastRun\<close> is set to true on the entry, \<^verbatim>\<open>updatedAt\<close> to the time of the
  call, the entry is put in the store, and the store is written when there is a store path.
  Otherwise the entry, the store and the disk are unchanged and true is written to the abort
  memory under the abort key, when there is one. The trigger is idempotent: a second call
  gives the same reply and, at the same reading of the clock, the same state; at a later
  reading \<open>t\<close>, the state of a single call at \<open>t\<close>.
\<close>

theorem abort_trigger:
  assumes cls: "classify env p = Abort"
  shows "fst (handleCommands env p w) =
           \<lparr>reply = Some (gear @ '' Agent was aborted.''), shouldContinue = False\<rparr> \<and>
         (\<forall>e st k. sessionEntry w = Some e \<and> sessionStore w = Some st \<and> sessionKey p = Some k \<and> k \<noteq> [] \<longrightarrow>
            (let e' = e\<lparr>abortedLastRun := Some True, updatedAt := now env\<rparr> in
             sessionEntry (snd (handleCommands env p w)) = Some e' \<and>
             sessionStore (snd (handleCommands env p w)) = Some (st(k \<mapsto> e')) \<and>
             disk (snd (handleCommands env p w)) =
               (case storePath p of
                  None \<Rightarrow> disk w
                | Some path \<Rightarrow> if path = [] then disk w else (disk w)(path \<mapsto> st(k \<mapsto> e'))) \<and>
             abortMemory (snd (handleCommands env p w)) = abortMemory w)) \<and>
         (\<not> entryGuard p w \<longrightarrow>
            stored (snd (handleCommands env p w)) =
              (sessionEntry w, sessionStore w, disk w,
               case abortKey (command p) of
                 None \<Rightarrow> abortMemory w
               | Some a \<Rightarrow> if a = [] then abortMemory w else (abortMemory w)(a \<mapsto> True))) \<and>
         fst (handleCommands env p (snd (handleCommands env p w))) = fst (handleCommands env p w) \<and>
         stored (snd (handleCommands env p (snd (handleCommands env p w)))) =
           stored (snd (handleCommands env p w)) \<and>
         (\<forall>t. fst (handleCommands (env\<lparr>now := t\<rparr>) p (snd (handleCommands env p w))) =
                fst (handleCommands env p w) \<and>
              stored (snd (handleCommands (env\<lparr>now := t\<rparr>) p (snd (handleCommands env p w)))) =
                stored (snd (handleCommands (env\<lparr>now := t\<rparr>) p w)))"
proof -
  have hc: "\<And>v. handleCommands env p v = handleAbort env p v"
    using cls by (simp add: hc_abort)
  have hct: "\<And>t v. handleCommands (env\<lparr>now := t\<rparr>) p v = handleAbort (env\<lparr>now := t\<rparr>) p v"
    using cls by (simp add: hc_abort classify_now)
  have r: "fst (handleAbort env p w) = \<lparr>reply = Some (gear @ '' Agent was aborted.''), shouldContinue = False\<rparr>"
    by (simp add: handleAbort_def replyWith_def)
  have g: "\<forall>e st k. sessionEntry w = Some e \<and> sessionStore w = Some st \<and> sessionKey p = Some k \<and> k \<noteq> [] \<longrightarrow>
            (let e' = e\<lparr>abortedLastRun := Some True, updatedAt := now env\<rparr> in
             sessionEntry (snd (handleAbort env p w)) = Some e' \<and>
             sessionStore (snd (handleAbort env p w)) = Some (st(k \<mapsto> e')) \<and>
             disk (snd (handleAbort env p w)) =
               (case storePath p of
                  None \<Rightarrow> disk w
                | Some path \<Rightarrow> if path = [] then disk w else (disk w)(path \<mapsto> st(k \<mapsto> e'))) \<and>
             abortMemory (snd (handleAbort env p w)) = abortMemory w)"
    by (simp add: handleAbort_guard touchAndStore_fields Let_def)
  have n: "\<not> entryGuard p w \<longrightarrow>
            stored (snd (handleAbort env p w)) =
              (sessionEntry w, sessionStore w, disk w,
               case abortKey (command p) of
                 None \<Rightarrow> abortMemory w
               | Some a \<Rightarrow> if a = [] then abortMemory w else (abortMemory w)(a \<mapsto> True))"
    by (auto simp add: handleAbort_no_guard stored_def setAbortMemory_def emit_def
        split: option.splits)
  show ?thesis
    unfolding hc hct
    using r g n handleAbort_twice [of env p env w] handleAbort_twice [of _ p env w]
    by blast
qed

theorem abort_trigger_witness:
  "fst (handleCommands sampleEnv
       (sampleParams (sampleCommand False ''stop'') False (Some ''/sessions.json''))
       (sampleWorld (Some (sampleEntry None)) (Some Map.empty))) =
     \<lparr>reply = Some (gear @ '' Agent was aborted.''), shouldContinue = False\<rparr> \<and>
   sessionEntry (snd (handleCommands sampleEnv
       (sampleParams (sampleCommand False ''stop'') False (Some ''/sessions.json''))
       (sampleWorld (Some (sampleEntry None)) (Some Map.empty)))) =
     Some ((sampleEntry None)\<lparr>abortedLastRun := Some True, updatedAt := 1000\<rparr>) \<and>
   stored (snd (handleCommands sampleEnv
       (sampleParams ((sampleCommand False ''stop'')\<lparr>abortKey := Some ''+15550002''\<rparr>) False None)
       (sampleWorld None None))) =
     (None, None, Map.empty, [''+15550002'' \<mapsto> True])"
proof -
  let ?p = "sampleParams (sampleCommand False ''stop'') False (Some ''/sessions.json'')"
  let ?w = "sampleWorld (Some (sampleEntry None)) (Some Map.empty)"
  let ?q = "sampleParams ((sampleCommand False ''stop'')\<lparr>abortKey := Some ''+15550002''\<rparr>) False None"
  let ?v = "sampleWorld None None"
  have c: "classify sampleEnv ?p = Abort" and d: "classify sampleEnv ?q = Abort"
    by (simp_all add: classify_def trigger_defs parse_defs sample_defs str_defs)
  have g: "sessionEntry ?w = Some (sampleEntry None) \<and> sessionStore ?w = Some Map.empty \<and>
           sessionKey ?p = Some ''main'' \<and> ''main'' \<noteq> []"
    by (simp add: sample_defs)
  have n: "now sampleEnv = 1000" by (simp add: sample_defs)
  have ng: "\<not> entryGuard ?q ?v" by (simp add: entryGuard_def sample_defs)
  have v: "sessionEntry ?v = None" "sessionStore ?v = None" "disk ?v = Map.empty"
      "abortMemory ?v = Map.empty" "abortKey (command ?q) = Some ''+15550002''"
    by (simp_all add: sample_defs)
  from abort_trigger [OF c, of ?w]
  have r: "fst (handleCommands sampleEnv ?p ?w) =
             \<lparr>reply = Some (gear @ '' Agent was aborted.''), shouldContinue = False\<rparr>"
    and all: "\<forall>e st k. sessionEntry ?w = Some e \<and> sessionStore ?w = Some st \<and>
                sessionKey ?p = Some k \<and> k \<noteq> [] \<longrightarrow>
            (let e' = e\<lparr>abortedLastRun := Some True, updatedAt := now sampleEnv\<rparr> in
             sessionEntry (snd (handleCommands sampleEnv ?p ?w)) = Some e' \<and>
             sessionStore (snd (handleCommands sampleEnv ?p ?w)) = Some (st(k \<mapsto> e')) \<and>
             disk (snd (handleCommands sampleEnv ?p ?w)) =
               (case storePath ?p of
                  None \<Rightarrow> disk ?w
                | Some path \<Rightarrow> if path = [] then disk ?w else (disk ?w)(path \<mapsto> st(k \<mapsto> e'))) \<and>
             abortMemory (snd (handleCommands sampleEnv ?p ?w)) = abortMemory ?w)"
    by blast+
  from abort_trigger [OF d, of ?v]
  have m: "\<not> entryGuard ?q ?v \<longrightarrow>
            stored (snd (handleCommands sampleEnv ?q ?v)) =
              (sessionEntry ?v, sessionStore ?v, disk ?v,
               case abortKey (command ?q) of
                 None \<Rightarrow> abortMemory ?v
               | Some a \<Rightarrow> if a = [] then abortMemory ?v else (abortMemory ?v)(a \<mapsto> True))"
    by blast
  from all [rule_format, OF g] n r m [rule_format, OF ng] v show ?thesis by (simp add: Let_def)
qed

text \<open>
  C10. When the guard of the mutations fails (no entry, no store, or no session key), an
  \<^verbatim>\<open>/activation\<close> command with a mode from an allowed sender in a group, an authorized
  \<^verbatim>\<open>/send\<close> command with a mode, and an abort trigger with no abort key still return their
  confirmation, and the state and the trace are those before the call: no entry is mutated
  and nothing is written. When the guard holds and there is no store path, the three
  commands return their confirmation and mutate the entry in memory, and the disk and the
  trace are unchanged: nothing is written.
\<close>

theorem no_entry_no_write:
  "(\<not> entryGuard p w \<longrightarrow>
      (\<forall>m. classify env p = SetActivation \<and> isGroup p \<and> activationAllowed env (command p) \<and>
            mode (parseActivationCommand (Some (commandBodyNormalized (command p)))) = Some m \<longrightarrow>
            handleCommands env p w =
              (\<lparr>reply = Some (gear @ '' Group activation set to '' @ activation_text m @ ''.''),
                shouldContinue = False\<rparr>, w)) \<and>
      (\<forall>m. classify env p = SetSendPolicy \<and> isAuthorizedSender (command p) \<and>
            mode (parseSendPolicyCommand env (commandBodyNormalized (command p))) = Some m \<longrightarrow>
            handleCommands env p w =
              (\<lparr>reply = Some (gear @ '' Send policy set to '' @
                              (case m of Inherit \<Rightarrow> ''inherit'' | Allow \<Rightarrow> ''on'' | Deny \<Rightarrow> ''off'') @
                              ''.''),
                shouldContinue = False\<rparr>, w)) \<and>
      (classify env p = Abort \<and> \<not> truthy (abortKey (command p)) \<longrightarrow>
         handleCommands env p w =
           (\<lparr>reply = Some (gear @ '' Agent was aborted.''), shouldContinue = False\<rparr>, w))) \<and>
   (entryGuard p w \<and> \<not> truthy (storePath p) \<longrightarrow>
      (\<forall>m. classify env p = SetActivation \<and> isGroup p \<and> activationAllowed env (command p) \<and>
            mode (parseActivationCommand (Some (commandBodyNormalized (command p)))) = Some m \<longrightarrow>
            reply (fst (handleCommands env p w)) =
              Some (gear @ '' Group activation set to '' @ activation_text m @ ''.'') \<and>
            map_option groupActivation (sessionEntry (snd (handleCommands env p w))) = Some (Some m) \<and>
            map_option updatedAt (sessionEntry (snd (handleCommands env p w))) = Some (now env) \<and>
            disk (snd (handleCommands env p w)) = disk w \<and>
            trace (snd (handleCommands env p w)) = trace w) \<and>
      (\<forall>m. classify env p = SetSendPolicy \<and> isAuthorizedSender (command p) \<and>
            mode (parseSendPolicyCommand env (commandBodyNormalized (command p))) = Some m \<longrightarrow>
            reply (fst (handleCommands env p w)) =
              Some (gear @ '' Send policy set to '' @
                    (case m of Inherit \<Rightarrow> ''inherit'' | Allow \<Rightarrow> ''on'' | Deny \<Rightarrow> ''off'') @ ''.'') \<and>
            map_option sendPolicy (sessionEntry (snd (handleCommands env p w))) =
              Some (case m of Inherit \<Rightarrow> None | Allow \<Rightarrow> Some Allow | Deny \<Rightarrow> Some Deny) \<and>
            map_option updatedAt (sessionEntry (snd (handleCommands env p w))) = Some (now env) \<and>
            disk (snd (handleCommands env p w)) = disk w \<and>
            trace (snd (handleCommands env p w)) = trace w) \<and>
      (classify env p = Abort \<longrightarrow>
         reply (fst (handleCommands env p w)) = Some (gear @ '' Agent was aborted.'') \<and>
         map_option abortedLastRun (sessionEntry (snd (handleCommands env p w))) = Some (Some True) \<and>
         map_option updatedAt (sessionEntry (snd (handleCommands env p w))) = Some (now env) \<and>
         disk (snd (handleCommands env p w)) = disk w \<and>
         trace (snd (handleCommands env p w)) = trace w))"
proof -
  have a1: "handleCommands env p w =
              (\<lparr>reply = Some (gear @ '' Group activation set to '' @ activation_text m @ ''.''),
                shouldContinue = False\<rparr>, w)"
    if "\<not> entryGuard p w" "classify env p = SetActivation" "isGroup p"
       "activationAllowed env (command p)"
       "mode (parseActivationCommand (Some (commandBodyNormalized (command p)))) = Some m" for m
    using that
    by (simp add: hc_activation classify_activation handleActivation_group mutateEntry_no_guard
        replyWith_def)
  have a2: "handleCommands env p w =
              (\<lparr>reply = Some (gear @ '' Send policy set to '' @
                              (case m of Inherit \<Rightarrow> ''inherit'' | Allow \<Rightarrow> ''on'' | Deny \<Rightarrow> ''off'') @
                              ''.''),
                shouldContinue = False\<rparr>, w)"
    if "\<not> entryGuard p w" "classify env p = SetSendPolicy" "isAuthorizedSender (command p)"
       "mode (parseSendPolicyCommand env (commandBodyNormalized (command p))) = Some m" for m
    using that
    by (cases m)
       (simp_all add: hc_send handleSendPolicy_def Let_def mutateEntry_no_guard replyWith_def
          sendPolicyLabel_def)
  have a3: "handleCommands env p w =
           (\<lparr>reply = Some (gear @ '' Agent was aborted.''), shouldContinue = False\<rparr>, w)"
    if "\<not> entryGuard p w" "classify env p = Abort" "\<not> truthy (abortKey (command p))"
    using that
    by (auto simp add: hc_abort handleAbort_no_guard replyWith_def truthy_def split: option.splits)
  have b1: "reply (fst (handleCommands env p w)) =
              Some (gear @ '' Group activation set to '' @ activation_text m @ ''.'') \<and>
            map_option groupActivation (sessionEntry (snd (handleCommands env p w))) = Some (Some m) \<and>
            map_option updatedAt (sessionEntry (snd (handleCommands env p w))) = Some (now env) \<and>
            disk (snd (handleCommands env p w)) = disk w \<and>
            trace (snd (handleCommands env p w)) = trace w"
    if eg: "entryGuard p w" and rest: "\<not> truthy (storePath p)" "classify env p = SetActivation" "isGroup p"
       "activationAllowed env (command p)"
       "mode (parseActivationCommand (Some (commandBodyNormalized (command p)))) = Some m" for m
  proof -
    obtain e st k where g: "sessionEntry w = Some e" "sessionStore w = Some st"
        "sessionKey p = Some k" "k \<noteq> []"
      using eg by (auto simp add: entryGuard_def truthy_def split: option.splits)
    show ?thesis using rest
      by (auto simp add: hc_activation classify_activation handleActivation_group
          mutateEntry_guard [OF g] touchAndStore_fields replyWith_def truthy_def
          split: option.splits)
  qed
  have b2: "reply (fst (handleCommands env p w)) =
              Some (gear @ '' Send policy set to '' @
                    (case m of Inherit \<Rightarrow> ''inherit'' | Allow \<Rightarrow> ''on'' | Deny \<Rightarrow> ''off'') @ ''.'') \<and>
            map_option sendPolicy (sessionEntry (snd (handleCommands env p w))) =
              Some (case m of Inherit \<Rightarrow> None | Allow \<Rightarrow> Some Allow | Deny \<Rightarrow> Some Deny) \<and>
            map_option updatedAt (sessionEntry (snd (handleCommands env p w))) = Some (now env) \<and>
            disk (snd (handleCommands env p w)) = disk w \<and>
            trace (snd (handleCommands env p w)) = trace w"
    if eg: "entryGuard p w" and rest: "\<not> truthy (storePath p)" "classify env p = SetSendPolicy"
       "isAuthorizedSender (command p)"
       "mode (parseSendPolicyCommand env (commandBodyNormalized (command p))) = Some m" for m
  proof -
    obtain e st k where g: "sessionEntry w = Some e" "sessionStore w = Some st"
        "sessionKey p = Some k" "k \<noteq> []"
      using eg by (auto simp add: entryGuard_def truthy_def split: option.splits)
    show ?thesis using rest
      by (cases m)
         (auto simp add: hc_send handleSendPolicy_def Let_def sendPolicyLabel_def
            mutateEntry_guard [OF g] touchAndStore_fields replyWith_def truthy_def
            split: option.splits)
  qed
  have b3: "reply (fst (handleCommands env p w)) = Some (gear @ '' Agent was aborted.'') \<and>
         map_option abortedLastRun (sessionEntry (snd (handleCommands env p w))) = Some (Some True) \<and>
         map_option updatedAt (sessionEntry (snd (handleCommands env p w))) = Some (now env) \<and>
         disk (snd (handleCommands env p w)) = disk w \<and>
         trace (snd (handleCommands env p w)) = trace w"
    if eg: "entryGuard p w" and rest: "\<not> truthy (storePath p)" "classify env p = Abort"
  proof -
    obtain e st k where g: "sessionEntry w = Some e" "sessionStore w = Some st"
        "sessionKey p = Some k" "k \<noteq> []"
      using eg by (auto simp add: entryGuard_def truthy_def split: option.splits)
    show ?thesis using rest
      by (auto simp add: hc_abort handleAbort_guard [OF g] touchAndStore_fields replyWith_def
          truthy_def split: option.splits)
  qed
  show ?thesis using a1 a2 a3 b1 b2 b3 by blast
qed

theorem no_entry_no_write_witness:
  "handleCommands sampleEnv (sampleParams (sampleCommand True ''/activation always'') True None)
     (sampleWorld None None) =
     (\<lparr>reply = Some (gear @ '' Group activation set to always.''), shouldContinue = False\<rparr>,
      sampleWorld None None) \<and>
   handleCommands sampleEnv (sampleParams (sampleCommand True ''/send off'') False None)
     (sampleWorld None None) =
     (\<lparr>reply = Some (gear @ '' Send policy set to off.''), shouldContinue = False\<rparr>,
      sampleWorld None None) \<and>
   handleCommands sampleEnv (sampleParams (sampleCommand True ''stop'') False None)
     (sampleWorld None None) =
     (\<lparr>reply = Some (gear @ '' Agent was aborted.''), shouldContinue = False\<rparr>,
      sampleWorld None None) \<and>
   map_option groupActivation (sessionEntry (snd (handleCommands sampleEnv
     (sampleParams (sampleCommand True ''/activation always'') True None)
     (sampleWorld (Some (sampleEntry None)) (Some Map.empty))))) = Some (Some Always) \<and>
   trace (snd (handleCommands sampleEnv
     (sampleParams (sampleCommand True ''/activation always'') True None)
     (sampleWorld (Some (sampleEntry None)) (Some Map.empty)))) = [] \<and>
   map_option sendPolicy (sessionEntry (snd (handleCommands sampleEnv
     (sampleParams (sampleCommand True ''/send on'') False None)
     (sampleWorld (Some (sampleEntry None)) (Some Map.empty))))) = Some (Some Allow) \<and>
   trace (snd (handleCommands sampleEnv
     (sampleParams (sampleCommand True ''/send on'') False None)
     (sampleWorld (Some (sampleEntry None)) (Some Map.empty)))) = [] \<and>
   map_option abortedLastRun (sessionEntry (snd (handleCommands sampleEnv
     (sampleParams (sampleCommand True ''stop'') False None)
     (sampleWorld (Some (sampleEntry None)) (Some Map.empty))))) = Some (Some True) \<and>
   trace (snd (handleCommands sampleEnv
     (sampleParams (sampleCommand True ''stop'') False None)
     (sampleWorld (Some (sampleEntry None)) (Some Map.empty)))) = []"
proof -
  let ?a = "sampleParams (sampleCommand True ''/activation always'') True None"
  let ?p = "sampleParams (sampleCommand True ''/send off'') False None"
  let ?q = "sampleParams (sampleCommand True ''/send on'') False None"
  let ?s = "sampleParams (sampleCommand True ''stop'') False None"
  let ?v = "sampleWorld None None"
  let ?w = "sampleWorld (Some (sampleEntry None)) (Some Map.empty)"
  have cls: "classify sampleEnv ?a = SetActivation" "classify sampleEnv ?p = SetSendPolicy"
      "classify sampleEnv ?q = SetSendPolicy" "classify sampleEnv ?s = Abort"
    by (simp_all add: classify_def trigger_defs parse_defs sample_defs str_defs)
  have auth: "isGroup ?a" "activationAllowed sampleEnv (command ?a)"
      "isAuthorizedSender (command ?p)" "isAuthorizedSender (command ?q)"
      "\<not> truthy (abortKey (command ?s))"
    by (simp_all add: activationAllowed_def truthy_def sample_defs)
  have md: "mode (parseActivationCommand (Some (commandBodyNormalized (command ?a)))) = Some Always"
      "mode (parseSendPolicyCommand sampleEnv (commandBodyNormalized (command ?p))) = Some Deny"
      "mode (parseSendPolicyCommand sampleEnv (commandBodyNormalized (command ?q))) = Some Allow"
    by (simp_all add: parse_defs sample_defs str_defs)
  have ng: "\<not> entryGuard ?a ?v" "\<not> entryGuard ?p ?v" "\<not> entryGuard ?s ?v"
    by (simp_all add: entryGuard_def sample_defs)
  have g: "entryGuard ?a ?w" "entryGuard ?q ?w" "entryGuard ?s ?w"
      "\<not> truthy (storePath ?a)" "\<not> truthy (storePath ?q)" "\<not> truthy (storePath ?s)"
      "trace ?w = []"
    by (simp_all add: entryGuard_def truthy_def sample_defs)
  have 1: "handleCommands sampleEnv ?a ?v =
     (\<lparr>reply = Some (gear @ '' Group activation set to always.''), shouldContinue = False\<rparr>, ?v)"
    using no_entry_no_write [of ?a ?v sampleEnv] ng cls auth md by (simp add: activation_text_def)
  have 2: "handleCommands sampleEnv ?p ?v =
     (\<lparr>reply = Some (gear @ '' Send policy set to off.''), shouldContinue = False\<rparr>, ?v)"
    using no_entry_no_write [of ?p ?v sampleEnv] ng cls auth md by simp
  have 3: "handleCommands sampleEnv ?s ?v =
     (\<lparr>reply = Some (gear @ '' Agent was aborted.''), shouldContinue = False\<rparr>, ?v)"
    using no_entry_no_write [of ?s ?v sampleEnv] ng cls auth by simp
  have 4: "map_option groupActivation (sessionEntry (snd (handleCommands sampleEnv ?a ?w))) =
        Some (Some Always) \<and> trace (snd (handleCommands sampleEnv ?a ?w)) = []"
    using no_entry_no_write [of ?a ?w sampleEnv] g cls auth md by simp
  have 5: "map_option sendPolicy (sessionEntry (snd (handleCommands sampleEnv ?q ?w))) =
        Some (Some Allow) \<and> trace (snd (handleCommands sampleEnv ?q ?w)) = []"
    using no_entry_no_write [of ?q ?w sampleEnv] g cls auth md by simp
  have 6: "map_option abortedLastRun (sessionEntry (snd (handleCommands sampleEnv ?s ?w))) =
        Some (Some True) \<and> trace (snd (handleCommands sampleEnv ?s ?w)) = []"
    using no_entry_no_write [of ?s ?w sampleEnv] g cls by simp
  show ?thesis using 1 2 3 4 5 6 by blast
qed

subsection \<open>Casing of the command tokens\<close>


end
